theory Spec2Isabelle
  imports Complex_Main "HOL-Library.Log_Nat"
begin

section \<open>JavaScript numbers\<close>

text \<open>
  The amounts of the service (\<^verbatim>\<open>cost\<close>, \<^verbatim>\<open>quantity\<close>, \<^verbatim>\<open>walletMoney\<close>, \<^verbatim>\<open>total\<close>) are
  JavaScript numbers: IEEE 754 double-precision values. A finite double is kept as the
  rational number it stands for; the two infinities and NaN are values of their own.
  Every operation below returns a double. \<open>Finite x\<close> is a double only for the rationals \<open>x\<close>
  that a double can hold, so a statement about every \<open>Finite x\<close> covers every finite double.
  The two zeros are one value here: they compare equal, and \<^verbatim>\<open>+\<close>, \<^verbatim>\<open>-\<close>, \<^verbatim>\<open>*\<close> and \<^verbatim>\<open>>\<close>
  return the same for both, up to the sign of a zero result.
\<close>

datatype jsnum = Finite rat | PosInf | NegInf | NaN

text \<open>The power of two with an integer exponent.\<close>

definition pow2 :: "int \<Rightarrow> rat" where
  "pow2 k = (if 0 \<le> k then 2 ^ nat k else 1 / 2 ^ nat (- k))"

text \<open>
  The binary exponent of a positive rational \<open>a\<close>: the \<open>e\<close> with \<open>2 ^ e \<le> a < 2 ^ (e + 1)\<close>.
  \<open>bitlen n\<close> is the number of binary digits of a positive integer.
\<close>

definition binExponent :: "rat \<Rightarrow> int" where
  "binExponent a = (if 1 \<le> a then bitlen \<lfloor>a\<rfloor> - 1 else - bitlen (\<lceil>1 / a\<rceil> - 1))"

text \<open>Rounding to the nearest integer, a tie going to the even neighbour.\<close>

definition roundHalfEven :: "rat \<Rightarrow> int" where
  "roundHalfEven y =
     (let n = \<lfloor>y\<rfloor>; f = y - of_int n
      in if f < 1 / 2 then n else if 1 / 2 < f then n + 1 else if even n then n else n + 1)"

text \<open>
  The result of an arithmetic operation is the exact result rounded to the nearest double,
  ties to even. A double has 53 significant bits, so the spacing of the doubles around a
  value with binary exponent \<open>e\<close> is \<open>2 ^ (e - 52)\<close>; below \<open>2 ^ (- 1022)\<close> (the subnormal
  range) the spacing stays \<open>2 ^ (- 1074)\<close>. A rounded magnitude of \<open>2 ^ 1024\<close> or more is an
  infinity.
\<close>

definition roundToDouble :: "rat \<Rightarrow> jsnum" where
  "roundToDouble x =
     (if x = 0 then Finite 0
      else
        (let a = \<bar>x\<bar>;
             e = max (binExponent a) (- 1022);
             u = pow2 (e - 52);
             r = of_int (roundHalfEven (a / u)) * u
         in if 2 ^ 1024 \<le> r then (if 0 < x then PosInf else NegInf)
            else Finite (if 0 < x then r else - r)))"

text \<open>Negation, \<^verbatim>\<open>x + y\<close>, \<^verbatim>\<open>x - y\<close>, \<^verbatim>\<open>x * y\<close>, \<^verbatim>\<open>x > y\<close> and \<^verbatim>\<open>x >= y\<close> on numbers.\<close>

fun js_neg :: "jsnum \<Rightarrow> jsnum" where
  "js_neg (Finite x) = Finite (- x)"
| "js_neg PosInf = NegInf"
| "js_neg NegInf = PosInf"
| "js_neg NaN = NaN"

fun js_add :: "jsnum \<Rightarrow> jsnum \<Rightarrow> jsnum" where
  "js_add NaN y = NaN"
| "js_add x NaN = NaN"
| "js_add PosInf NegInf = NaN"
| "js_add NegInf PosInf = NaN"
| "js_add PosInf y = PosInf"
| "js_add x PosInf = PosInf"
| "js_add NegInf y = NegInf"
| "js_add x NegInf = NegInf"
| "js_add (Finite x) (Finite y) = roundToDouble (x + y)"

definition js_sub :: "jsnum \<Rightarrow> jsnum \<Rightarrow> jsnum" where
  "js_sub x y = js_add x (js_neg y)"

fun js_mul :: "jsnum \<Rightarrow> jsnum \<Rightarrow> jsnum" where
  "js_mul NaN y = NaN"
| "js_mul x NaN = NaN"
| "js_mul (Finite x) (Finite y) = roundToDouble (x * y)"
| "js_mul (Finite x) PosInf = (if x = 0 then NaN else if 0 < x then PosInf else NegInf)"
| "js_mul (Finite x) NegInf = (if x = 0 then NaN else if 0 < x then NegInf else PosInf)"
| "js_mul PosInf (Finite y) = (if y = 0 then NaN else if 0 < y then PosInf else NegInf)"
| "js_mul NegInf (Finite y) = (if y = 0 then NaN else if 0 < y then NegInf else PosInf)"
| "js_mul PosInf PosInf = PosInf"
| "js_mul PosInf NegInf = NegInf"
| "js_mul NegInf PosInf = NegInf"
| "js_mul NegInf NegInf = PosInf"

fun js_gt :: "jsnum \<Rightarrow> jsnum \<Rightarrow> bool" where
  "js_gt (Finite x) (Finite y) = (y < x)"
| "js_gt PosInf (Finite y) = True"
| "js_gt PosInf NegInf = True"
| "js_gt (Finite x) NegInf = True"
| "js_gt x y = False"

fun js_ge :: "jsnum \<Rightarrow> jsnum \<Rightarrow> bool" where
  "js_ge (Finite x) (Finite y) = (y \<le> x)"
| "js_ge PosInf (Finite y) = True"
| "js_ge PosInf PosInf = True"
| "js_ge PosInf NegInf = True"
| "js_ge (Finite x) NegInf = True"
| "js_ge NegInf NegInf = True"
| "js_ge x y = False"

text \<open>\<^verbatim>\<open>Number.isFinite\<close> and \<^verbatim>\<open>Number.isInteger\<close>.\<close>

fun isFinite :: "jsnum \<Rightarrow> bool" where
  "isFinite (Finite x) = True"
| "isFinite x = False"

fun isInteger :: "jsnum \<Rightarrow> bool" where
  "isInteger (Finite x) = (of_int \<lfloor>x\<rfloor> = x)"
| "isInteger x = False"

text \<open>The rational value of a finite number (0 for the other three, which have none).\<close>

fun amount :: "jsnum \<Rightarrow> rat" where
  "amount (Finite x) = x"
| "amount x = 0"

section \<open>Data model of the cart service\<close>

text \<open>
  The service \<^verbatim>\<open>src/services/cart.service.js\<close> works on three kinds of Mongo documents.
  Only the fields that the service reads or writes are kept. Identifiers and e-mail
  addresses are strings compared by equality, which is what the loose comparison
  \<^verbatim>\<open>productId == item.product._id\<close> does on a string and an ObjectId. The field \<^verbatim>\<open>_id\<close> of
  a product is called \<open>product_id\<close>, since an Isabelle name cannot start with an underscore.
\<close>

record product_doc =
  product_id :: string
  cost :: jsnum

record cart_item =
  product :: product_doc
  quantity :: jsnum

record cart_doc =
  email :: string
  cartItems :: "cart_item list"
  paymentOption :: string

text \<open>
  Modelled from the spec: the user model is not part of the service file. The spec says a
  user "holds wallet balance and address-configuration flag"; the flag is the outcome of
  the call \<^verbatim>\<open>user.hasSetNonDefaultAddress()\<close>.
\<close>

record user_doc =
  email :: string
  walletMoney :: jsnum
  hasSetNonDefaultAddress :: bool

text \<open>
  Modelled from the spec: \<^verbatim>\<open>config.default_payment_option\<close> comes from a configuration
  module that is not part of the service file, so it is a parameter.
\<close>

record config =
  default_payment_option :: string

text \<open>The database: one list of documents per collection, in natural order.\<close>

record world =
  carts :: "cart_doc list"
  products :: "product_doc list"
  users :: "user_doc list"

subsection \<open>Errors\<close>

text \<open>The three members of \<^verbatim>\<open>http-status\<close> that the service uses.\<close>

definition NOT_FOUND :: nat where
  "NOT_FOUND = 404"

definition BAD_REQUEST :: nat where
  "BAD_REQUEST = 400"

definition INTERNAL_SERVER_ERROR :: nat where
  "INTERNAL_SERVER_ERROR = 500"

datatype ApiError = ApiError (statusCode: nat) (message: string)

text \<open>
  An operation takes the database and returns either the thrown error or its result,
  together with the database as the call leaves it: a call that throws may already have
  written.
\<close>

type_synonym 'a outcome = "(ApiError + 'a) \<times> world"

subsection \<open>Database primitives\<close>

text \<open>
  Modelled from the spec: the Mongoose model \<^verbatim>\<open>Cart\<close> is not part of the service file.
  \<^verbatim>\<open>Cart.findOne({email: e})\<close> returns the first stored cart with that e-mail, or null.
\<close>

definition Cart_findOne :: "string \<Rightarrow> cart_doc list \<Rightarrow> cart_doc option" where
  "Cart_findOne e cs = find (\<lambda>c. cart_doc.email c = e) cs"

text \<open>
  Modelled from the spec: the Mongoose model \<^verbatim>\<open>Product\<close> is not part of the service file.
  \<^verbatim>\<open>Product.findOne({_id: i})\<close> returns the first stored product with that identifier, or
  null.
\<close>

definition Product_findOne :: "string \<Rightarrow> product_doc list \<Rightarrow> product_doc option" where
  "Product_findOne i ps = find (\<lambda>p. product_id p = i) ps"

text \<open>
  Modelled from the spec: \<^verbatim>\<open>Cart.create\<close> inserts the document and returns it; it rejects
  when a cart with the same e-mail is already stored (the spec: "at most one cart per user
  email"; the service's own message for the rejection: "User cart creation failed because
  user already have a cart").
\<close>

definition Cart_create :: "cart_doc \<Rightarrow> cart_doc list \<Rightarrow> (cart_doc \<times> cart_doc list) option" where
  "Cart_create c cs =
     (if list_ex (\<lambda>d. cart_doc.email d = cart_doc.email c) cs then None
      else Some (c, cs @ [c]))"

text \<open>
  Modelled from the spec: \<^verbatim>\<open>cart.save()\<close> writes the document held in memory over its stored
  version. The service never changes the e-mail of a cart it has read, so the stored
  version is the first cart with that e-mail, the one \<^verbatim>\<open>findOne\<close> returned.
\<close>

fun Cart_save :: "cart_doc \<Rightarrow> cart_doc list \<Rightarrow> cart_doc list" where
  "Cart_save c [] = []"
| "Cart_save c (d # ds) =
     (if cart_doc.email d = cart_doc.email c then c # ds else d # Cart_save c ds)"

text \<open>
  Modelled from the spec: \<^verbatim>\<open>user.save()\<close> writes the user object over its stored version,
  found by the e-mail, which the service never changes.
\<close>

fun User_save :: "user_doc \<Rightarrow> user_doc list \<Rightarrow> user_doc list" where
  "User_save u [] = []"
| "User_save u (d # ds) =
     (if user_doc.email d = user_doc.email u then u # ds else d # User_save u ds)"

section \<open>The service\<close>

subsection \<open>getCartByUser\<close>

definition getCartByUser :: "user_doc \<Rightarrow> world \<Rightarrow> cart_doc outcome" where
  "getCartByUser user w =
     (case Cart_findOne (user_doc.email user) (carts w) of
        None \<Rightarrow> (Inl (ApiError NOT_FOUND ''User does not have a cart''), w)
      | Some cart \<Rightarrow> (Inr cart, w))"

subsection \<open>The linear scan shared by add, update and delete\<close>

text \<open>
  \<^verbatim>\<open>
  let productIndex = -1;
  for (let i = 0; i < cart.cartItems.length; i++) {
    if (productId == cart.cartItems[i].product._id) { productIndex = i; }
  }
  \<close>
  The loop does not stop at a match: it leaves the index of the last matching item.
  \<open>scanLoop\<close> is the loop from position \<open>i\<close> on, with the items still to visit.
\<close>

fun scanLoop :: "string \<Rightarrow> cart_item list \<Rightarrow> nat \<Rightarrow> int \<Rightarrow> int" where
  "scanLoop productId [] i productIndex = productIndex"
| "scanLoop productId (x # xs) i productIndex =
     scanLoop productId xs (i + 1)
       (if productId = product_id (product x) then int i else productIndex)"

definition findProductIndex :: "string \<Rightarrow> cart_item list \<Rightarrow> int" where
  "findProductIndex productId items = scanLoop productId items 0 (- 1)"

subsection \<open>addProductToCart\<close>

definition addProductToCart ::
    "config \<Rightarrow> user_doc \<Rightarrow> string \<Rightarrow> jsnum \<Rightarrow> world \<Rightarrow> cart_doc outcome" where
  "addProductToCart cfg user productId qty w =
     (case (case Cart_findOne (user_doc.email user) (carts w) of
              Some c \<Rightarrow> Inr (Some c, w)
            | None \<Rightarrow>
                (case Cart_create
                        \<lparr>cart_doc.email = user_doc.email user, cartItems = [],
                         paymentOption = default_payment_option cfg\<rparr> (carts w) of
                   None \<Rightarrow> Inl (ApiError INTERNAL_SERVER_ERROR
                     ''User cart creation failed because user already have a cart'')
                 | Some (c, cs) \<Rightarrow> Inr (Some c, w\<lparr>carts := cs\<rparr>))) of
        Inl err \<Rightarrow> (Inl err, w)
      | Inr (None, w1) \<Rightarrow>
          (Inl (ApiError INTERNAL_SERVER_ERROR ''User does not have a cart''), w1)
      | Inr (Some cart, w1) \<Rightarrow>
          (let productIndex = findProductIndex productId (cartItems cart) in
           if productIndex = - 1 then
             (case Product_findOne productId (products w1) of
                None \<Rightarrow>
                  (Inl (ApiError BAD_REQUEST ''Product doesn't exist in database''), w1)
              | Some p \<Rightarrow>
                  (let cart' = cart\<lparr>cartItems :=
                         cartItems cart @ [\<lparr>product = p, quantity = qty\<rparr>]\<rparr>
                   in (Inr cart', w1\<lparr>carts := Cart_save cart' (carts w1)\<rparr>)))
           else
             (Inl (ApiError BAD_REQUEST
                ''Product already in cart. use the cart sidebar to update or remove product from cart''),
              w1)))"

subsection \<open>updateProductInCart\<close>

text \<open>
  \<^verbatim>\<open>cart.cartItems[productIndex].quantity = quantity\<close> runs only in the branch where
  \<open>productIndex\<close> is not \<open>-1\<close>, so the index is a position of the list.
\<close>

definition updateProductInCart ::
    "user_doc \<Rightarrow> string \<Rightarrow> jsnum \<Rightarrow> world \<Rightarrow> cart_doc outcome" where
  "updateProductInCart user productId qty w =
     (case Cart_findOne (user_doc.email user) (carts w) of
        None \<Rightarrow>
          (Inl (ApiError BAD_REQUEST
             ''User does not have a cart. Use POST to create cart and add a product''), w)
      | Some cart \<Rightarrow>
          (case Product_findOne productId (products w) of
             None \<Rightarrow> (Inl (ApiError BAD_REQUEST ''Product doesn't exist in database''), w)
           | Some p \<Rightarrow>
               (let productIndex = findProductIndex productId (cartItems cart) in
                if productIndex = - 1 then
                  (Inl (ApiError BAD_REQUEST ''Product not in cart''), w)
                else
                  (let k = nat productIndex;
                       cart' = cart\<lparr>cartItems :=
                         (cartItems cart)[k := (cartItems cart ! k)\<lparr>quantity := qty\<rparr>]\<rparr>
                   in (Inr cart', w\<lparr>carts := Cart_save cart' (carts w)\<rparr>)))))"

subsection \<open>deleteProductFromCart\<close>

text \<open>
  \<^verbatim>\<open>array.splice(start, deleteCount)\<close> for \<open>0 \<le> start\<close>: the items from \<open>start\<close> on,
  \<open>deleteCount\<close> of them, are removed. The service calls it only with the index found by
  the scan, which is not negative there.
\<close>

definition splice_js :: "nat \<Rightarrow> nat \<Rightarrow> 'a list \<Rightarrow> 'a list" where
  "splice_js start deleteCount xs = take start xs @ drop (start + deleteCount) xs"

definition deleteProductFromCart :: "user_doc \<Rightarrow> string \<Rightarrow> world \<Rightarrow> cart_doc outcome" where
  "deleteProductFromCart user productId w =
     (case Cart_findOne (user_doc.email user) (carts w) of
        None \<Rightarrow> (Inl (ApiError BAD_REQUEST ''User does not have a cart''), w)
      | Some cart \<Rightarrow>
          (let productIndex = findProductIndex productId (cartItems cart) in
           if productIndex = - 1 then
             (Inl (ApiError BAD_REQUEST ''Product not in cart''), w)
           else
             (let cart' = cart\<lparr>cartItems := splice_js (nat productIndex) 1 (cartItems cart)\<rparr>
              in (Inr cart', w\<lparr>carts := Cart_save cart' (carts w)\<rparr>))))"

subsection \<open>checkout\<close>

text \<open>
  \<^verbatim>\<open>
  let total = 0;
  for (let i = 0; i < cart.cartItems.length; i++) {
    total += cart.cartItems[i].product.cost * cart.cartItems[i].quantity;
  }
  \<close>
\<close>

fun totalLoop :: "cart_item list \<Rightarrow> jsnum \<Rightarrow> jsnum" where
  "totalLoop [] tot = tot"
| "totalLoop (x # xs) tot = totalLoop xs (js_add tot (js_mul (cost (product x)) (quantity x)))"

text \<open>
  The source returns nothing; it changes the user object it was given. The result here
  is that user object after the call.
\<close>

definition checkout :: "user_doc \<Rightarrow> world \<Rightarrow> user_doc outcome" where
  "checkout user w =
     (case Cart_findOne (user_doc.email user) (carts w) of
        None \<Rightarrow> (Inl (ApiError NOT_FOUND ''User does not have a cart''), w)
      | Some cart \<Rightarrow>
          if length (cartItems cart) = 0 then
            (Inl (ApiError BAD_REQUEST ''Cart is empty''), w)
          else if \<not> hasSetNonDefaultAddress user then
            (Inl (ApiError BAD_REQUEST ''Address not set''), w)
          else
            (let total = totalLoop (cartItems cart) (Finite 0) in
             if js_gt total (walletMoney user) then
               (Inl (ApiError BAD_REQUEST ''User has insufficient money to process''), w)
             else
               (let user' = user\<lparr>walletMoney := js_sub (walletMoney user) total\<rparr>;
                    cart' = cart\<lparr>cartItems := []\<rparr>
                in (Inr user',
                    w\<lparr>users := User_save user' (users w),
                      carts := Cart_save cart' (carts w)\<rparr>))))"

section \<open>Quantities the claims speak about\<close>

text \<open>The product identifiers of an item list, in order.\<close>

definition itemIds :: "cart_item list \<Rightarrow> string list" where
  "itemIds items = map (\<lambda>x. product_id (product x)) items"

text \<open>The total that the loop of \<open>checkout\<close> computes for an item list.\<close>

definition computedTotal :: "cart_item list \<Rightarrow> jsnum" where
  "computedTotal items = totalLoop items (Finite 0)"

text \<open>
  The sum of cost times quantity over an item list as a sum of rational numbers, and the
  sum of the absolute values of the terms. Both are meant for lists whose costs and
  quantities are finite.
\<close>

definition exactTotal :: "cart_item list \<Rightarrow> rat" where
  "exactTotal items = sum_list (map (\<lambda>x. amount (cost (product x)) * amount (quantity x)) items)"

definition absTotal :: "cart_item list \<Rightarrow> rat" where
  "absTotal items =
     sum_list (map (\<lambda>x. \<bar>amount (cost (product x)) * amount (quantity x)\<bar>) items)"

text \<open>Every cost and every quantity of the list is an integer.\<close>

definition integerAmounts :: "cart_item list \<Rightarrow> bool" where
  "integerAmounts items =
     list_all (\<lambda>x. isInteger (cost (product x)) \<and> isInteger (quantity x)) items"

text \<open>The stored cart of an e-mail address has pairwise distinct product identifiers.\<close>

definition cartDistinct :: "string \<Rightarrow> world \<Rightarrow> bool" where
  "cartDistinct e w =
     (case Cart_findOne e (carts w) of
        None \<Rightarrow> True
      | Some c \<Rightarrow> distinct (itemIds (cartItems c)))"

text \<open>The document that \<^verbatim>\<open>addProductToCart\<close> hands to \<^verbatim>\<open>Cart.create\<close>.\<close>

definition newCart :: "config \<Rightarrow> user_doc \<Rightarrow> cart_doc" where
  "newCart cfg user =
     \<lparr>cart_doc.email = user_doc.email user, cartItems = [],
      paymentOption = default_payment_option cfg\<rparr>"

text \<open>The HTTP status of the error an operation threw, if it threw.\<close>

definition thrownStatus :: "'a outcome \<Rightarrow> nat option" where
  "thrownStatus r = (case fst r of Inl err \<Rightarrow> Some (statusCode err) | Inr _ \<Rightarrow> None)"

subsection \<open>A small database for the examples\<close>

definition exProductA :: product_doc where
  "exProductA = \<lparr>product_id = ''p1'', cost = Finite 10\<rparr>"

definition exProductB :: product_doc where
  "exProductB = \<lparr>product_id = ''p2'', cost = Finite 7\<rparr>"

definition exProductC :: product_doc where
  "exProductC = \<lparr>product_id = ''p3'', cost = Finite 5\<rparr>"

definition exCart :: cart_doc where
  "exCart = \<lparr>cart_doc.email = ''ann@qkart.io'',
     cartItems = [\<lparr>product = exProductA, quantity = Finite 2\<rparr>, \<lparr>product = exProductB, quantity = Finite 1\<rparr>],
     paymentOption = ''PAYMENT_OPTION_DEFAULT''\<rparr>"

definition exEmptyCart :: cart_doc where
  "exEmptyCart = \<lparr>cart_doc.email = ''ann@qkart.io'', cartItems = [],
     paymentOption = ''PAYMENT_OPTION_DEFAULT''\<rparr>"

definition exUser :: user_doc where
  "exUser = \<lparr>user_doc.email = ''ann@qkart.io'', walletMoney = Finite 27,
     hasSetNonDefaultAddress = True\<rparr>"

definition exUserNoAddress :: user_doc where
  "exUserNoAddress = \<lparr>user_doc.email = ''ann@qkart.io'', walletMoney = Finite 27,
     hasSetNonDefaultAddress = False\<rparr>"

definition exUserRich :: user_doc where
  "exUserRich = \<lparr>user_doc.email = ''ann@qkart.io'', walletMoney = Finite 100,
     hasSetNonDefaultAddress = True\<rparr>"

definition exConfig :: config where
  "exConfig = \<lparr>default_payment_option = ''PAYMENT_OPTION_DEFAULT''\<rparr>"

definition exWorld :: world where
  "exWorld = \<lparr>carts = [exCart], products = [exProductA, exProductB, exProductC], users = [exUser]\<rparr>"

definition exWorldNoCart :: world where
  "exWorldNoCart = \<lparr>carts = [], products = [exProductA, exProductB, exProductC], users = [exUser]\<rparr>"

definition exWorldEmptyCart :: world where
  "exWorldEmptyCart =
     \<lparr>carts = [exEmptyCart], products = [exProductA, exProductB, exProductC], users = [exUser]\<rparr>"

definition exWorldNoProducts :: world where
  "exWorldNoProducts = \<lparr>carts = [exCart], products = [], users = [exUser]\<rparr>"

text \<open>
  Amounts at the edge of the integers that a double holds exactly (\<open>2 ^ 53\<close>), amounts whose
  product overflows, and a cart that holds one product twice.
\<close>

definition exCartBig :: cart_doc where
  "exCartBig = \<lparr>cart_doc.email = ''ann@qkart.io'',
     cartItems =
       [\<lparr>product = \<lparr>product_id = ''p1'', cost = Finite (2 ^ 53)\<rparr>, quantity = Finite 1\<rparr>,
        \<lparr>product = \<lparr>product_id = ''p2'', cost = Finite 3\<rparr>, quantity = Finite 1\<rparr>,
        \<lparr>product = \<lparr>product_id = ''p3'', cost = Finite 3\<rparr>, quantity = Finite 1\<rparr>],
     paymentOption = ''PAYMENT_OPTION_DEFAULT''\<rparr>"

definition exUserBig :: user_doc where
  "exUserBig = \<lparr>user_doc.email = ''ann@qkart.io'', walletMoney = Finite (2 ^ 53 + 6),
     hasSetNonDefaultAddress = True\<rparr>"

definition exWorldBig :: world where
  "exWorldBig = \<lparr>carts = [exCartBig], products = [], users = [exUserBig]\<rparr>"

definition exCartTie :: cart_doc where
  "exCartTie = \<lparr>cart_doc.email = ''ann@qkart.io'',
     cartItems =
       [\<lparr>product = \<lparr>product_id = ''p1'', cost = Finite (2 ^ 52)\<rparr>, quantity = Finite 2\<rparr>,
        \<lparr>product = \<lparr>product_id = ''p2'', cost = Finite 3\<rparr>, quantity = Finite 1\<rparr>,
        \<lparr>product = \<lparr>product_id = ''p3'', cost = Finite 1\<rparr>, quantity = Finite 3\<rparr>],
     paymentOption = ''PAYMENT_OPTION_DEFAULT''\<rparr>"

definition exWorldTie :: world where
  "exWorldTie = \<lparr>carts = [exCartTie], products = [], users = [exUserBig]\<rparr>"

definition exCartOverflow :: cart_doc where
  "exCartOverflow = \<lparr>cart_doc.email = ''ann@qkart.io'',
     cartItems =
       [\<lparr>product = \<lparr>product_id = ''p1'', cost = Finite (2 ^ 1023)\<rparr>, quantity = Finite 2\<rparr>,
        \<lparr>product = \<lparr>product_id = ''p2'', cost = Finite (2 ^ 1023)\<rparr>, quantity = Finite (- 2)\<rparr>],
     paymentOption = ''PAYMENT_OPTION_DEFAULT''\<rparr>"

definition exUserZero :: user_doc where
  "exUserZero = \<lparr>user_doc.email = ''ann@qkart.io'', walletMoney = Finite 0,
     hasSetNonDefaultAddress = True\<rparr>"

definition exWorldOverflow :: world where
  "exWorldOverflow = \<lparr>carts = [exCartOverflow], products = [], users = [exUserZero]\<rparr>"

definition exCartTwice :: cart_doc where
  "exCartTwice = \<lparr>cart_doc.email = ''ann@qkart.io'',
     cartItems = [\<lparr>product = exProductA, quantity = Finite 2\<rparr>,
       \<lparr>product = exProductB, quantity = Finite 1\<rparr>,
       \<lparr>product = exProductA, quantity = Finite 9\<rparr>],
     paymentOption = ''PAYMENT_OPTION_DEFAULT''\<rparr>"

definition exWorldTwice :: world where
  "exWorldTwice =
     \<lparr>carts = [exCartTwice], products = [exProductA, exProductB, exProductC], users = [exUser]\<rparr>"

lemmas ex_defs =
  exProductA_def exProductB_def exProductC_def exCart_def exEmptyCart_def exUser_def exUserNoAddress_def
  exUserRich_def exConfig_def exWorld_def exWorldNoCart_def exWorldEmptyCart_def
  exWorldNoProducts_def
  exCartBig_def exUserBig_def exWorldBig_def exCartTie_def exWorldTie_def
  exCartOverflow_def exUserZero_def exWorldOverflow_def exCartTwice_def exWorldTwice_def

section \<open>Facts about the rounding\<close>

lemma pow2_pos: "0 < pow2 k"
  by (simp add: pow2_def)

lemma roundHalfEven_of_int: "roundHalfEven (of_int n) = n"
  by (simp add: roundHalfEven_def)

lemma floor_le_roundHalfEven: "\<lfloor>y\<rfloor> \<le> roundHalfEven y"
  by (simp add: roundHalfEven_def Let_def)

lemma roundHalfEven_le: "roundHalfEven y \<le> \<lfloor>y\<rfloor> + 1"
  by (simp add: roundHalfEven_def Let_def)

lemma binExponent_of_int:
  "0 < n \<Longrightarrow> binExponent (of_int n) = bitlen n - 1"
  by (simp add: binExponent_def)

lemma roundToDouble_pos:
  assumes "0 < x"
    and "max (binExponent x) (- 1022) = e"
    and "pow2 (e - 52) = u"
    and "of_int (roundHalfEven (x / u)) * u = r"
    and "r < 2 ^ 1024"
  shows "roundToDouble x = Finite r"
  using assms by (simp add: roundToDouble_def Let_def)

lemma rat_less_pow1024:
  assumes "m \<le> (2 :: int) ^ 54"
  shows "(of_int m :: rat) < 2 ^ 1024"
proof -
  have "(2 :: int) ^ 54 < 2 ^ 1024"
    by (rule power_strict_increasing) simp_all
  with assms have "m < 2 ^ 1024"
    by linarith
  then have "(of_int m :: rat) < of_int (2 ^ 1024)"
    by (simp only: of_int_less_iff)
  then show ?thesis
    by simp
qed

lemma roundToDouble_pos_int:
  assumes "0 < m" and "m \<le> 2 ^ 53"
  shows "roundToDouble (of_int m) = Finite (of_int m)"
proof -
  let ?b = "bitlen m"
  from assms(1) have lo: "2 ^ nat (?b - 1) \<le> m"
    using bitlen_bounds [of m] by simp
  from assms(1) have b1: "1 \<le> ?b"
    by (simp add: bitlen_ge_iff_power)
  from assms(2) have "m < 2 ^ nat 54"
    by simp
  then have b54: "?b \<le> 54"
    by (simp add: bitlen_le_iff_power)
  have pos: "(0 :: rat) < of_int m"
    using assms(1) by simp
  have e: "max (binExponent (of_int m)) (- 1022) = ?b - 1"
    using assms(1) b1 by (simp add: binExponent_of_int)
  from assms(2) have small: "(of_int m :: rat) < 2 ^ 1024"
    by (intro rat_less_pow1024) simp
  show ?thesis
  proof (cases "?b \<le> 53")
    case True
    define k where "k = nat (53 - ?b)"
    from True have u: "pow2 (?b - 1 - 52) = 1 / 2 ^ k"
      by (cases "?b = 53") (simp_all add: pow2_def k_def)
    have q: "(of_int m :: rat) / (1 / 2 ^ k) = of_int (m * 2 ^ k)"
      by simp
    have r: "of_int (roundHalfEven (of_int m / (1 / 2 ^ k))) * (1 / 2 ^ k) = (of_int m :: rat)"
      by (simp only: q roundHalfEven_of_int) simp
    from pos e u r small show ?thesis
      by (rule roundToDouble_pos)
  next
    case False
    with b54 have b: "?b = 54"
      by simp
    with lo assms(2) have m: "m = 2 * 2 ^ 52"
      by simp
    from b have u: "pow2 (?b - 1 - 52) = 2"
      by (simp add: pow2_def)
    have q: "(of_int m :: rat) / 2 = of_int (2 ^ 52)"
      unfolding m by simp
    have r: "of_int (roundHalfEven (of_int m / 2)) * 2 = (of_int m :: rat)"
      unfolding q roundHalfEven_of_int unfolding m by simp
    from pos e u r small show ?thesis
      by (rule roundToDouble_pos)
  qed
qed

lemma roundToDouble_neg:
  assumes "x < 0" and "roundToDouble (- x) = Finite r"
  shows "roundToDouble x = Finite (- r)"
  using assms by (simp add: roundToDouble_def Let_def split: if_splits)

lemma roundToDouble_safe:
  assumes "x \<in> \<int>" and "\<bar>x\<bar> \<le> 2 ^ 53"
  shows "roundToDouble x = Finite x"
proof -
  from assms(1) obtain n where x: "x = of_int n"
    by (rule Ints_cases)
  from assms(2) have "\<bar>rat_of_int n\<bar> \<le> of_int (2 ^ 53)"
    by (simp add: x)
  then have n: "\<bar>n\<bar> \<le> 2 ^ 53"
    by (simp only: of_int_abs [symmetric] of_int_le_iff)
  consider "n = 0" | "0 < n" | "n < 0"
    by linarith
  then show ?thesis
  proof cases
    case 1
    then show ?thesis
      by (simp add: x roundToDouble_def)
  next
    case 2
    with n have "roundToDouble (of_int n) = Finite (of_int n)"
      by (intro roundToDouble_pos_int) simp_all
    then show ?thesis
      by (simp add: x)
  next
    case 3
    with n have "roundToDouble (of_int (- n)) = Finite (of_int (- n))"
      by (intro roundToDouble_pos_int) simp_all
    then have flipped: "roundToDouble (- x) = Finite (- x)"
      by (simp add: x)
    from 3 have "x < 0"
      by (simp add: x)
    from this flipped have "roundToDouble x = Finite (- (- x))"
      by (rule roundToDouble_neg)
    then show ?thesis
      by simp
  qed
qed


lemma roundToDouble_zero: "roundToDouble 0 = Finite 0"
  by (simp add: roundToDouble_def)

lemma roundToDouble_nonneg:
  assumes "0 \<le> x"
  shows "js_ge (roundToDouble x) (Finite 0)"
proof (cases "x = 0")
  case True
  then show ?thesis
    by (simp add: roundToDouble_def)
next
  case False
  with assms have pos: "0 < x"
    by simp
  define u where "u = pow2 (max (binExponent \<bar>x\<bar>) (- 1022) - 52)"
  have u: "0 < u"
    by (simp add: u_def pow2_pos)
  with pos have "0 \<le> \<bar>x\<bar> / u"
    by simp
  then have "0 \<le> \<lfloor>\<bar>x\<bar> / u\<rfloor>"
    by simp
  with floor_le_roundHalfEven [of "\<bar>x\<bar> / u"] have "0 \<le> roundHalfEven (\<bar>x\<bar> / u)"
    by linarith
  with u have "0 \<le> of_int (roundHalfEven (\<bar>x\<bar> / u)) * u"
    by simp
  with pos show ?thesis
    by (simp add: roundToDouble_def Let_def u_def)
qed

lemma binExponent_bounds:
  assumes "1 \<le> a"
  shows "0 \<le> binExponent a"
    and "2 ^ nat (binExponent a) \<le> a"
    and "a < 2 ^ nat (binExponent a + 1)"
proof -
  from assms have fl: "0 < \<lfloor>a\<rfloor>"
    by simp
  then have b1: "1 \<le> bitlen \<lfloor>a\<rfloor>"
    by (simp add: bitlen_ge_iff_power)
  have e: "binExponent a = bitlen \<lfloor>a\<rfloor> - 1"
    using assms by (simp add: binExponent_def)
  from b1 e show "0 \<le> binExponent a"
    by simp
  from fl have lo: "2 ^ nat (bitlen \<lfloor>a\<rfloor> - 1) \<le> \<lfloor>a\<rfloor>"
    and hi: "\<lfloor>a\<rfloor> < 2 ^ nat (bitlen \<lfloor>a\<rfloor>)"
    using bitlen_bounds [of "\<lfloor>a\<rfloor>"] by simp_all
  from lo have "(of_int (2 ^ nat (bitlen \<lfloor>a\<rfloor> - 1)) :: rat) \<le> of_int \<lfloor>a\<rfloor>"
    by (simp only: of_int_le_iff)
  also have "\<dots> \<le> a"
    by simp
  finally show "2 ^ nat (binExponent a) \<le> a"
    by (simp add: e)
  from hi have "\<lfloor>a\<rfloor> + 1 \<le> 2 ^ nat (bitlen \<lfloor>a\<rfloor>)"
    by simp
  then have "(of_int (\<lfloor>a\<rfloor> + 1) :: rat) \<le> of_int (2 ^ nat (bitlen \<lfloor>a\<rfloor>))"
    by (simp only: of_int_le_iff)
  moreover have "a < of_int (\<lfloor>a\<rfloor> + 1)"
    by linarith
  ultimately have "a < of_int (2 ^ nat (bitlen \<lfloor>a\<rfloor>))"
    by linarith
  then show "a < 2 ^ nat (binExponent a + 1)"
    by (simp add: e)
qed

lemma roundToDouble_overflow:
  assumes "2 ^ 1024 \<le> x"
  shows "roundToDouble x = PosInf"
proof -
  have big: "(1 :: rat) \<le> 2 ^ 1024"
    by (rule one_le_power) simp
  with assms have x1: "1 \<le> x" and pos: "0 < x"
    by linarith+
  define e where "e = binExponent x"
  from x1 have e0: "0 \<le> e" and lo: "2 ^ nat e \<le> x" and hi: "x < 2 ^ nat (e + 1)"
    unfolding e_def by (rule binExponent_bounds)+
  from assms hi have "(2 :: rat) ^ 1024 < 2 ^ nat (e + 1)"
    by linarith
  then have "1024 < nat (e + 1)"
    by (rule power_less_imp_less_exp [rotated]) simp
  then have e1024: "1024 \<le> e"
    by linarith
  define k where "k = nat (e - 52)"
  from e1024 have ek: "nat e = 52 + k"
    by (simp add: k_def)
  from e1024 have u: "pow2 (max e (- 1022) - 52) = 2 ^ k"
    by (simp add: pow2_def k_def)
  from lo have "(2 :: rat) ^ 52 * 2 ^ k \<le> x"
    by (simp add: ek power_add)
  then have "(2 :: rat) ^ 52 \<le> x / 2 ^ k"
    by (simp add: pos_le_divide_eq)
  then have "of_int (2 ^ 52) \<le> x / 2 ^ k"
    by simp
  then have "2 ^ 52 \<le> \<lfloor>x / 2 ^ k\<rfloor>"
    by (simp only: le_floor_iff)
  with floor_le_roundHalfEven [of "x / 2 ^ k"] have "2 ^ 52 \<le> roundHalfEven (x / 2 ^ k)"
    by linarith
  then have "(of_int (2 ^ 52) :: rat) \<le> of_int (roundHalfEven (x / 2 ^ k))"
    by (simp only: of_int_le_iff)
  then have "(2 :: rat) ^ 52 * 2 ^ k \<le> of_int (roundHalfEven (x / 2 ^ k)) * 2 ^ k"
    by simp
  then have "(2 :: rat) ^ nat e \<le> of_int (roundHalfEven (x / 2 ^ k)) * 2 ^ k"
    by (simp add: ek power_add)
  moreover from e1024 have "(2 :: rat) ^ 1024 \<le> 2 ^ nat e"
    by (intro power_increasing) simp_all
  ultimately have "(2 :: rat) ^ 1024 \<le> of_int (roundHalfEven (x / 2 ^ k)) * 2 ^ k"
    by linarith
  with pos u show ?thesis
    unfolding roundToDouble_def Let_def e_def
    by (simp del: power_numeral)
qed

lemma roundToDouble_flip_overflow:
  assumes "x < 0" and "roundToDouble (- x) = PosInf"
  shows "roundToDouble x = NegInf"
  using assms by (simp add: roundToDouble_def Let_def split: if_splits)

lemma roundToDouble_underflow:
  assumes "x \<le> - (2 ^ 1024)"
  shows "roundToDouble x = NegInf"
proof -
  have "(0 :: rat) < 2 ^ 1024"
    by simp
  with assms have neg: "x < 0"
    by linarith
  from assms have "2 ^ 1024 \<le> - x"
    by linarith
  then have "roundToDouble (- x) = PosInf"
    by (rule roundToDouble_overflow)
  with neg show ?thesis
    by (rule roundToDouble_flip_overflow)
qed

lemma roundToDouble_53:
  assumes "2 ^ 53 \<le> m" and "m < 2 ^ 54"
  shows "roundToDouble (of_int m) = Finite (of_int (roundHalfEven (of_int m / 2)) * 2)"
proof -
  have "(0 :: int) < 2 ^ 53"
    by simp
  with assms(1) have m0: "0 < m"
    by linarith
  from assms(2) have "m < 2 ^ nat 54"
    by simp
  then have "bitlen m \<le> 54"
    by (simp only: bitlen_le_iff_power) simp
  moreover from assms(1) have "2 ^ (nat 54 - 1) \<le> m"
    by simp
  then have "54 \<le> bitlen m"
    by (simp only: bitlen_ge_iff_power) simp
  ultimately have b: "bitlen m = 54"
    by simp
  have pos: "(0 :: rat) < of_int m"
    using m0 by simp
  have e: "max (binExponent (of_int m)) (- 1022) = 53"
    using m0 b by (simp add: binExponent_of_int)
  have u: "pow2 (53 - 52) = 2"
    by (simp add: pow2_def)
  from assms(2) have "m < 2 * 2 ^ 53"
    by simp
  then have "(of_int m :: rat) < of_int (2 * 2 ^ 53)"
    by (simp only: of_int_less_iff)
  then have "(of_int m :: rat) / 2 < of_int (2 ^ 53)"
    by simp
  then have "\<lfloor>(of_int m :: rat) / 2\<rfloor> < 2 ^ 53"
    by (simp only: floor_less_iff)
  then have "\<lfloor>(of_int m :: rat) / 2\<rfloor> + 1 \<le> 2 ^ 53"
    by simp
  with roundHalfEven_le [of "of_int m / 2"] have "roundHalfEven (of_int m / 2) \<le> 2 ^ 53"
    by linarith
  then have "roundHalfEven (of_int m / 2) * 2 \<le> 2 ^ 54"
    by simp
  then have small: "(of_int (roundHalfEven (of_int m / 2)) :: rat) * 2 < 2 ^ 1024"
    using rat_less_pow1024 [of "roundHalfEven (of_int m / 2) * 2"] by simp
  from pos e u refl small show ?thesis
    by (rule roundToDouble_pos)
qed

lemma roundToDouble_numeral:
  "(numeral k :: rat) \<le> 2 ^ 53 \<Longrightarrow> roundToDouble (numeral k) = Finite (numeral k)"
  by (rule roundToDouble_safe) simp_all

lemma roundToDouble_one: "roundToDouble 1 = Finite 1"
  by (rule roundToDouble_safe) simp_all

lemma roundHalfEven_half:
  "roundHalfEven (of_int m / 2) =
     (if even m then m div 2 else if even (m div 2) then m div 2 else m div 2 + 1)"
proof (cases "even m")
  case True
  then obtain j where m: "m = 2 * j"
    by (elim evenE)
  have "(of_int m :: rat) / 2 = of_int j"
    by (simp add: m)
  then have "roundHalfEven (of_int m / 2) = j"
    by (simp only: roundHalfEven_of_int)
  with True show ?thesis
    by (simp add: m)
next
  case False
  then obtain j where m: "m = 2 * j + 1"
    by (elim oddE)
  have half: "(of_int m :: rat) / 2 = of_int j + 1 / 2"
    by (simp add: m add_divide_distrib)
  have fl: "\<lfloor>(of_int j :: rat) + 1 / 2\<rfloor> = j"
    by (simp add: floor_unique)
  have "roundHalfEven (of_int j + 1 / 2) = (if even j then j else j + 1)"
    by (simp add: roundHalfEven_def Let_def fl)
  with False show ?thesis
    by (simp add: half) (simp add: m)
qed

lemma roundToDouble_53_numeral:
  assumes "2 ^ 53 \<le> (numeral k :: int)" and "(numeral k :: int) < 2 ^ 54"
  shows "roundToDouble (numeral k) =
    Finite (of_int
      ((if even (numeral k :: int) then numeral k div 2
        else if even (numeral k div 2 :: int) then numeral k div 2
        else numeral k div 2 + 1) * 2))"
  using roundToDouble_53 [OF assms] roundHalfEven_half [of "numeral k"] by simp

lemma roundToDouble_overflow_numeral:
  "2 ^ 1024 \<le> (numeral k :: rat) \<Longrightarrow> roundToDouble (numeral k) = PosInf"
  by (rule roundToDouble_overflow)

lemma roundToDouble_underflow_numeral:
  "2 ^ 1024 \<le> (numeral k :: rat) \<Longrightarrow> roundToDouble (- numeral k) = NegInf"
  by (rule roundToDouble_underflow) simp

section \<open>Facts about the database primitives\<close>

lemma Cart_findOne_email:
  "Cart_findOne e cs = Some c \<Longrightarrow> cart_doc.email c = e"
  by (auto simp: Cart_findOne_def find_Some_iff)

lemma Product_findOne_id:
  "Product_findOne i ps = Some p \<Longrightarrow> product_id p = i"
  by (auto simp: Product_findOne_def find_Some_iff)

lemma Cart_findOne_save:
  "Cart_findOne e cs = Some c \<Longrightarrow> cart_doc.email c' = e \<Longrightarrow>
   Cart_findOne e (Cart_save c' cs) = Some c'"
  by (induction cs) (auto simp: Cart_findOne_def split: if_splits)

lemma length_Cart_save: "length (Cart_save c cs) = length cs"
  by (induction cs) auto

lemma Cart_create_absent:
  "Cart_findOne (cart_doc.email c) cs = None \<Longrightarrow> Cart_create c cs = Some (c, cs @ [c])"
  by (auto simp: Cart_create_def Cart_findOne_def find_None_iff list_ex_iff)

section \<open>Facts about the loops\<close>

lemma scanLoop_absent:
  "productId \<notin> set (itemIds xs) \<Longrightarrow> scanLoop productId xs i k = k"
  by (induction xs arbitrary: i k) (auto simp: itemIds_def)

lemma scanLoop_last:
  "product_id (product x) = productId \<Longrightarrow> productId \<notin> set (itemIds zs) \<Longrightarrow>
   scanLoop productId (ys @ x # zs) i k = int (i + length ys)"
  by (induction ys arbitrary: i k) (auto simp: scanLoop_absent)

lemma findProductIndex_absent:
  "productId \<notin> set (itemIds xs) \<Longrightarrow> findProductIndex productId xs = - 1"
  by (simp add: findProductIndex_def scanLoop_absent)

lemma findProductIndex_last:
  "product_id (product x) = productId \<Longrightarrow> productId \<notin> set (itemIds zs) \<Longrightarrow>
   findProductIndex productId (ys @ x # zs) = int (length ys)"
  by (simp add: findProductIndex_def scanLoop_last)

lemma split_last_id:
  assumes "productId \<in> set (itemIds xs)"
  shows "\<exists>ys x zs. xs = ys @ x # zs \<and> product_id (product x) = productId \<and>
    productId \<notin> set (itemIds zs)"
proof -
  from assms have "\<exists>x \<in> set xs. product_id (product x) = productId"
    by (auto simp: itemIds_def)
  then have "\<exists>ys x zs. xs = ys @ x # zs \<and> product_id (product x) = productId \<and>
    (\<forall>z \<in> set zs. product_id (product z) \<noteq> productId)"
    by (rule split_list_last_prop)
  then obtain ys x zs where split: "xs = ys @ x # zs" "product_id (product x) = productId"
    and rest: "\<forall>z \<in> set zs. product_id (product z) \<noteq> productId"
    by blast
  from rest have "productId \<notin> set (itemIds zs)"
    by (auto simp: itemIds_def)
  with split show ?thesis
    by blast
qed

lemma findProductIndex_present:
  assumes "productId \<in> set (itemIds xs)"
  shows "findProductIndex productId xs \<noteq> - 1"
proof -
  from split_last_id [OF assms] obtain ys x zs where
    "xs = ys @ x # zs" "product_id (product x) = productId"
    "productId \<notin> set (itemIds zs)"
    by blast
  then show ?thesis
    by (simp add: findProductIndex_last)
qed

lemma findProductIndex_minus_one_iff:
  "findProductIndex productId xs = - 1 \<longleftrightarrow> productId \<notin> set (itemIds xs)"
  using findProductIndex_absent findProductIndex_present by blast

lemma isInteger_cases:
  assumes "isInteger v"
  shows "\<exists>c. v = Finite c \<and> c \<in> \<int>"
proof (cases v)
  case (Finite c)
  with assms have "of_int \<lfloor>c\<rfloor> = c"
    by simp
  then have "c \<in> \<int>"
    by (metis Ints_of_int)
  with Finite show ?thesis
    by simp
qed (use assms in simp_all)

lemma absTotal_nonneg: "0 \<le> absTotal items"
  by (induction items) (simp_all add: absTotal_def)

lemma exactTotal_le_absTotal: "\<bar>exactTotal items\<bar> \<le> absTotal items"
proof (induction items)
  case Nil
  show ?case
    by (simp add: exactTotal_def absTotal_def)
next
  case (Cons x xs)
  then show ?case
    unfolding exactTotal_def absTotal_def by (simp add: abs_triangle_ineq [THEN order_trans])
qed

lemma totalLoop_exact:
  assumes "integerAmounts items" and "t \<in> \<int>" and "\<bar>t\<bar> + absTotal items \<le> 2 ^ 53"
  shows "totalLoop items (Finite t) = Finite (t + exactTotal items) \<and> t + exactTotal items \<in> \<int>"
  using assms
proof (induction items arbitrary: t)
  case Nil
  then show ?case
    by (simp add: exactTotal_def)
next
  case (Cons x xs)
  from Cons.prems(1) have ints: "isInteger (cost (product x))" "isInteger (quantity x)"
    and rest: "integerAmounts xs"
    by (simp_all add: integerAmounts_def)
  from ints obtain c q where c: "cost (product x) = Finite c" "c \<in> \<int>"
    and q: "quantity x = Finite q" "q \<in> \<int>"
    by (meson isInteger_cases)
  have abs: "absTotal (x # xs) = \<bar>c * q\<bar> + absTotal xs"
    and ex: "exactTotal (x # xs) = c * q + exactTotal xs"
    by (simp_all add: absTotal_def exactTotal_def c q)
  from c q have p: "c * q \<in> \<int>"
    by simp
  from Cons.prems(3) abs absTotal_nonneg [of xs] have pb: "\<bar>c * q\<bar> \<le> 2 ^ 53"
    by linarith
  from p pb have mul: "roundToDouble (c * q) = Finite (c * q)"
    by (rule roundToDouble_safe)
  from Cons.prems(2) p have s: "t + c * q \<in> \<int>"
    by simp
  from Cons.prems(3) abs absTotal_nonneg [of xs] have sb: "\<bar>t + c * q\<bar> \<le> 2 ^ 53"
    by linarith
  from s sb have add: "roundToDouble (t + c * q) = Finite (t + c * q)"
    by (rule roundToDouble_safe)
  from Cons.prems(3) abs have "\<bar>t + c * q\<bar> + absTotal xs \<le> 2 ^ 53"
    by linarith
  with rest s have "totalLoop xs (Finite (t + c * q)) = Finite (t + c * q + exactTotal xs) \<and>
      t + c * q + exactTotal xs \<in> \<int>"
    by (rule Cons.IH)
  then show ?case
    by (simp add: c q mul add ex add.assoc)
qed

lemma computedTotal_exact:
  assumes "integerAmounts items" and "absTotal items \<le> 2 ^ 53"
  shows "computedTotal items = Finite (exactTotal items)" and "exactTotal items \<in> \<int>"
  using totalLoop_exact [of items 0] assms by (simp_all add: computedTotal_def)

lemma findProductIndex_is_last:
  assumes "productId \<in> set (itemIds xs)"
    and "nat (findProductIndex productId xs) < j" and "j < length xs"
  shows "product_id (product (xs ! j)) \<noteq> productId"
proof -
  from split_last_id [OF assms(1)] obtain ys x zs where
    split: "xs = ys @ x # zs" "product_id (product x) = productId"
    and zs: "productId \<notin> set (itemIds zs)"
    by blast
  then have k: "nat (findProductIndex productId xs) = length ys"
    by (simp add: findProductIndex_last)
  with assms(2,3) split have j: "xs ! j = zs ! (j - length ys - 1)" "j - length ys - 1 < length zs"
    by (auto simp: nth_append nth_Cons')
  then have "xs ! j \<in> set zs"
    by simp
  with zs show ?thesis
    by (auto simp: itemIds_def)
qed

section \<open>The operations in closed form\<close>

lemma Cart_findOne_save_cases:
  "Cart_findOne e (Cart_save c' cs) =
     (if cart_doc.email c' = e \<and> Cart_findOne e cs \<noteq> None then Some c' else Cart_findOne e cs)"
  by (induction cs) (auto simp: Cart_findOne_def)

lemma Cart_findOne_append:
  "Cart_findOne e (cs @ [c]) =
     (case Cart_findOne e cs of
        Some d \<Rightarrow> Some d
      | None \<Rightarrow> if cart_doc.email c = e then Some c else None)"
  by (induction cs) (auto simp: Cart_findOne_def)

lemma findProductIndex_Nil: "findProductIndex productId [] = - 1"
  by (simp add: findProductIndex_def)

lemma addProductToCart_found:
  "Cart_findOne (user_doc.email user) (carts w) = Some cart \<Longrightarrow>
   addProductToCart cfg user productId qty w =
     (if productId \<in> set (itemIds (cartItems cart)) then
        (Inl (ApiError BAD_REQUEST
           ''Product already in cart. use the cart sidebar to update or remove product from cart''), w)
      else
        (case Product_findOne productId (products w) of
           None \<Rightarrow> (Inl (ApiError BAD_REQUEST ''Product doesn't exist in database''), w)
         | Some p \<Rightarrow>
             (Inr (cart\<lparr>cartItems := cartItems cart @ [\<lparr>product = p, quantity = qty\<rparr>]\<rparr>),
              w\<lparr>carts := Cart_save
                (cart\<lparr>cartItems := cartItems cart @ [\<lparr>product = p, quantity = qty\<rparr>]\<rparr>)
                (carts w)\<rparr>)))"
  by (simp add: addProductToCart_def Let_def findProductIndex_minus_one_iff split: option.splits)

lemma addProductToCart_missing:
  "Cart_findOne (user_doc.email user) (carts w) = None \<Longrightarrow>
   addProductToCart cfg user productId qty w =
     (case Product_findOne productId (products w) of
        None \<Rightarrow> (Inl (ApiError BAD_REQUEST ''Product doesn't exist in database''),
                 w\<lparr>carts := carts w @ [newCart cfg user]\<rparr>)
      | Some p \<Rightarrow>
          (Inr ((newCart cfg user)\<lparr>cartItems := [\<lparr>product = p, quantity = qty\<rparr>]\<rparr>),
           w\<lparr>carts := Cart_save
             ((newCart cfg user)\<lparr>cartItems := [\<lparr>product = p, quantity = qty\<rparr>]\<rparr>)
             (carts w @ [newCart cfg user])\<rparr>))"
  by (simp add: addProductToCart_def Let_def Cart_create_absent findProductIndex_Nil newCart_def
      split: option.splits)

lemma checkout_found:
  "Cart_findOne (user_doc.email user) (carts w) = Some cart \<Longrightarrow>
   checkout user w =
     (if cartItems cart = [] then (Inl (ApiError BAD_REQUEST ''Cart is empty''), w)
      else if \<not> hasSetNonDefaultAddress user then
        (Inl (ApiError BAD_REQUEST ''Address not set''), w)
      else if js_gt (computedTotal (cartItems cart)) (walletMoney user) then
        (Inl (ApiError BAD_REQUEST ''User has insufficient money to process''), w)
      else
        (Inr (user\<lparr>walletMoney := js_sub (walletMoney user) (computedTotal (cartItems cart))\<rparr>),
         w\<lparr>users := User_save
              (user\<lparr>walletMoney := js_sub (walletMoney user) (computedTotal (cartItems cart))\<rparr>)
              (users w),
           carts := Cart_save (cart\<lparr>cartItems := []\<rparr>) (carts w)\<rparr>))"
  by (simp add: checkout_def Let_def computedTotal_def)

lemma updateProductInCart_found:
  "Cart_findOne (user_doc.email user) (carts w) = Some cart \<Longrightarrow>
   updateProductInCart user productId qty w =
     (case Product_findOne productId (products w) of
        None \<Rightarrow> (Inl (ApiError BAD_REQUEST ''Product doesn't exist in database''), w)
      | Some p \<Rightarrow>
          if productId \<notin> set (itemIds (cartItems cart)) then
            (Inl (ApiError BAD_REQUEST ''Product not in cart''), w)
          else
            (Inr (cart\<lparr>cartItems := (cartItems cart)
                    [nat (findProductIndex productId (cartItems cart)) :=
                       (cartItems cart ! nat (findProductIndex productId (cartItems cart)))
                         \<lparr>quantity := qty\<rparr>]\<rparr>),
             w\<lparr>carts := Cart_save
               (cart\<lparr>cartItems := (cartItems cart)
                    [nat (findProductIndex productId (cartItems cart)) :=
                       (cartItems cart ! nat (findProductIndex productId (cartItems cart)))
                         \<lparr>quantity := qty\<rparr>]\<rparr>)
               (carts w)\<rparr>))"
  by (simp add: updateProductInCart_def Let_def findProductIndex_minus_one_iff
      split: option.splits)

lemma deleteProductFromCart_found:
  "Cart_findOne (user_doc.email user) (carts w) = Some cart \<Longrightarrow>
   deleteProductFromCart user productId w =
     (if productId \<notin> set (itemIds (cartItems cart)) then
        (Inl (ApiError BAD_REQUEST ''Product not in cart''), w)
      else
        (Inr (cart\<lparr>cartItems :=
                splice_js (nat (findProductIndex productId (cartItems cart))) 1
                  (cartItems cart)\<rparr>),
         w\<lparr>carts := Cart_save
           (cart\<lparr>cartItems :=
                splice_js (nat (findProductIndex productId (cartItems cart))) 1
                  (cartItems cart)\<rparr>)
           (carts w)\<rparr>))"
  by (simp add: deleteProductFromCart_def Let_def findProductIndex_minus_one_iff)

lemma findProductIndex_bounds:
  assumes "productId \<in> set (itemIds xs)"
  shows "0 \<le> findProductIndex productId xs"
    and "nat (findProductIndex productId xs) < length xs"
    and "product_id (product (xs ! nat (findProductIndex productId xs))) = productId"
proof -
  from split_last_id [OF assms] obtain ys x zs where
    split: "xs = ys @ x # zs" "product_id (product x) = productId"
    "productId \<notin> set (itemIds zs)"
    by blast
  then have k: "findProductIndex productId xs = int (length ys)"
    by (simp add: findProductIndex_last)
  from k show "0 \<le> findProductIndex productId xs"
    by simp
  from k split show "nat (findProductIndex productId xs) < length xs"
    by simp
  from k split show "product_id (product (xs ! nat (findProductIndex productId xs))) = productId"
    by simp
qed

lemma itemIds_set_quantity:
  "itemIds (xs[k := (xs ! k)\<lparr>quantity := qty\<rparr>]) = itemIds xs"
proof (cases "k < length xs")
  case True
  then show ?thesis
    by (simp add: itemIds_def map_update list_update_same_conv)
next
  case False
  then show ?thesis
    by (simp add: list_update_beyond)
qed

lemma splice_js_split:
  "splice_js (length ys) (Suc 0) (ys @ x # zs) = ys @ zs"
  by (simp add: splice_js_def)

lemma distinct_splice:
  assumes "distinct (itemIds xs)"
  shows "distinct (itemIds (splice_js (nat (findProductIndex productId xs)) 1 xs))"
proof (cases "productId \<in> set (itemIds xs)")
  case True
  from split_last_id [OF True] obtain ys x zs where
    split: "xs = ys @ x # zs" "product_id (product x) = productId"
    "productId \<notin> set (itemIds zs)"
    by blast
  then have "splice_js (nat (findProductIndex productId xs)) 1 xs = ys @ zs"
    by (simp add: findProductIndex_last splice_js_split)
  with assms split show ?thesis
    by (auto simp: itemIds_def)
next
  case False
  then have "findProductIndex productId xs = - 1"
    by (rule findProductIndex_absent)
  then have "splice_js (nat (findProductIndex productId xs)) 1 xs = drop 1 xs"
    by (simp add: splice_js_def)
  with assms show ?thesis
    by (simp add: itemIds_def distinct_drop flip: drop_map)
qed

lemma splice_once:
  assumes "length (filter (\<lambda>x. product_id (product x) = productId) xs) = 1"
  shows "splice_js (nat (findProductIndex productId xs)) 1 xs =
    filter (\<lambda>x. product_id (product x) \<noteq> productId) xs"
proof -
  from assms have "filter (\<lambda>x. product_id (product x) = productId) xs \<noteq> []"
    by auto
  then have "productId \<in> set (itemIds xs)"
    by (auto simp: itemIds_def filter_empty_conv)
  from split_last_id [OF this] obtain ys x zs where
    split: "xs = ys @ x # zs" "product_id (product x) = productId"
    and zs: "productId \<notin> set (itemIds zs)"
    by blast
  from assms split have "filter (\<lambda>x. product_id (product x) = productId) ys = []"
    by simp
  then have ys: "filter (\<lambda>x. product_id (product x) \<noteq> productId) ys = ys"
    by (auto simp: filter_empty_conv filter_id_conv)
  from zs have zs': "filter (\<lambda>x. product_id (product x) \<noteq> productId) zs = zs"
    by (auto simp: itemIds_def filter_id_conv)
  from split zs have "splice_js (nat (findProductIndex productId xs)) 1 xs = ys @ zs"
    by (simp add: findProductIndex_last splice_js_split)
  with split ys zs' show ?thesis
    by simp
qed


lemma cartDistinct_save:
  assumes "cartDistinct e w"
    and "Cart_findOne (cart_doc.email c') (carts w) = Some c"
    and "distinct (itemIds (cartItems c)) \<Longrightarrow> distinct (itemIds (cartItems c'))"
    and "carts w' = Cart_save c' (carts w)"
  shows "cartDistinct e w'"
proof (cases "cart_doc.email c' = e")
  case True
  with assms(1,2) have "distinct (itemIds (cartItems c))"
    by (simp add: cartDistinct_def)
  with assms(3) have "distinct (itemIds (cartItems c'))" .
  with True assms(2,4) show ?thesis
    by (simp add: cartDistinct_def Cart_findOne_save_cases)
next
  case False
  with assms(1,4) show ?thesis
    by (simp add: cartDistinct_def Cart_findOne_save_cases)
qed

lemma cartDistinct_create:
  assumes "cartDistinct e w"
    and "carts w' = carts w @ [newCart cfg user]"
  shows "cartDistinct e w'"
  using assms
  by (auto simp: cartDistinct_def Cart_findOne_append newCart_def itemIds_def
      split: option.splits)

lemma distinct_push:
  assumes "distinct (itemIds xs)" and "productId \<notin> set (itemIds xs)"
    and "product_id p = productId"
  shows "distinct (itemIds (xs @ [\<lparr>product = p, quantity = qty\<rparr>]))"
  using assms by (simp add: itemIds_def)

lemma addProductToCart_distinct:
  assumes "cartDistinct e w"
  shows "cartDistinct e (snd (addProductToCart cfg user productId qty w))"
proof (cases "Cart_findOne (user_doc.email user) (carts w)")
  case None
  let ?w1 = "w\<lparr>carts := carts w @ [newCart cfg user]\<rparr>"
  have w1: "cartDistinct e ?w1"
    using assms by (rule cartDistinct_create) simp
  show ?thesis
  proof (cases "Product_findOne productId (products w)")
    case pNone: None
    with None w1 show ?thesis
      by (simp add: addProductToCart_missing)
  next
    case (Some p)
    let ?c' = "(newCart cfg user)\<lparr>cartItems := [\<lparr>product = p, quantity = qty\<rparr>]\<rparr>"
    from None have "Cart_findOne (cart_doc.email ?c') (carts ?w1) = Some (newCart cfg user)"
      by (simp add: Cart_findOne_append newCart_def)
    with w1 have "cartDistinct e (?w1\<lparr>carts := Cart_save ?c' (carts ?w1)\<rparr>)"
      by (rule cartDistinct_save) (simp_all add: itemIds_def)
    with None Some show ?thesis
      by (simp add: addProductToCart_missing)
  qed
next
  case (Some cart)
  note cart = Some
  show ?thesis
  proof (cases "productId \<in> set (itemIds (cartItems cart))")
    case True
    with cart assms show ?thesis
      by (simp add: addProductToCart_found)
  next
    case False
    show ?thesis
    proof (cases "Product_findOne productId (products w)")
      case None
      with cart False assms show ?thesis
        by (simp add: addProductToCart_found)
    next
      case (Some p)
      let ?c' = "cart\<lparr>cartItems := cartItems cart @ [\<lparr>product = p, quantity = qty\<rparr>]\<rparr>"
      from Some have id: "product_id p = productId"
        by (rule Product_findOne_id)
      from cart have "cart_doc.email cart = user_doc.email user"
        by (rule Cart_findOne_email)
      with cart have "Cart_findOne (cart_doc.email ?c') (carts w) = Some cart"
        by simp
      with assms have "cartDistinct e (w\<lparr>carts := Cart_save ?c' (carts w)\<rparr>)"
        by (rule cartDistinct_save) (simp_all add: distinct_push [OF _ False id])
      with cart False Some show ?thesis
        by (simp add: addProductToCart_found)
    qed
  qed
qed

lemma updateProductInCart_distinct:
  assumes "cartDistinct e w"
  shows "cartDistinct e (snd (updateProductInCart user productId qty w))"
proof (cases "Cart_findOne (user_doc.email user) (carts w)")
  case None
  with assms show ?thesis
    by (simp add: updateProductInCart_def)
next
  case (Some cart)
  let ?k = "nat (findProductIndex productId (cartItems cart))"
  let ?c' = "cart\<lparr>cartItems := (cartItems cart)[?k := (cartItems cart ! ?k)\<lparr>quantity := qty\<rparr>]\<rparr>"
  from Some have "cart_doc.email cart = user_doc.email user"
    by (rule Cart_findOne_email)
  with Some have "Cart_findOne (cart_doc.email ?c') (carts w) = Some cart"
    by simp
  with assms have "cartDistinct e (w\<lparr>carts := Cart_save ?c' (carts w)\<rparr>)"
    by (rule cartDistinct_save) (simp_all add: itemIds_set_quantity)
  with Some assms show ?thesis
    by (simp add: updateProductInCart_found split: option.splits)
qed

lemma deleteProductFromCart_distinct:
  assumes "cartDistinct e w"
  shows "cartDistinct e (snd (deleteProductFromCart user productId w))"
proof (cases "Cart_findOne (user_doc.email user) (carts w)")
  case None
  with assms show ?thesis
    by (simp add: deleteProductFromCart_def)
next
  case (Some cart)
  let ?c' = "cart\<lparr>cartItems :=
    splice_js (nat (findProductIndex productId (cartItems cart))) 1 (cartItems cart)\<rparr>"
  from Some have "cart_doc.email cart = user_doc.email user"
    by (rule Cart_findOne_email)
  with Some have "Cart_findOne (cart_doc.email ?c') (carts w) = Some cart"
    by simp
  with assms have "cartDistinct e (w\<lparr>carts := Cart_save ?c' (carts w)\<rparr>)"
    by (rule cartDistinct_save) (simp_all add: distinct_splice del: One_nat_def)
  with Some assms show ?thesis
    by (simp add: deleteProductFromCart_found)
qed

lemma checkout_distinct:
  assumes "cartDistinct e w"
  shows "cartDistinct e (snd (checkout user w))"
proof (cases "Cart_findOne (user_doc.email user) (carts w)")
  case None
  with assms show ?thesis
    by (simp add: checkout_def)
next
  case (Some cart)
  let ?c' = "cart\<lparr>cartItems := []\<rparr>"
  let ?u' = "user\<lparr>walletMoney := js_sub (walletMoney user) (computedTotal (cartItems cart))\<rparr>"
  from Some have "cart_doc.email cart = user_doc.email user"
    by (rule Cart_findOne_email)
  with Some have "Cart_findOne (cart_doc.email ?c') (carts w) = Some cart"
    by simp
  with assms have "cartDistinct e
      (w\<lparr>users := User_save ?u' (users w), carts := Cart_save ?c' (carts w)\<rparr>)"
    by (rule cartDistinct_save) (simp_all add: itemIds_def)
  with Some assms show ?thesis
    by (simp add: checkout_found)
qed

section \<open>The claims\<close>

text \<open>
  Claim C1, as the code has it. The code adds and compares in double precision, so the
  statement needs amounts on which that arithmetic is exact. When the user's cart exists
  and is not empty, the address check \<open>hasSetNonDefaultAddress\<close> passes, every cost and
  quantity and the wallet balance are integers, the sum of the absolute values of cost times
  quantity and the absolute value of the balance are at most \<open>2 ^ 52\<close>, and the balance is at
  least the sum of cost times quantity over the cart items, \<open>checkout\<close> succeeds, the user's
  \<open>walletMoney\<close> is lowered by exactly that sum (in the user object and in the saved user),
  and the stored cart is still there, with an empty item list: no cart document is removed.
\<close>

theorem checkout_success:
  assumes "Cart_findOne (user_doc.email user) (carts w) = Some cart"
    and "cartItems cart \<noteq> []"
    and "hasSetNonDefaultAddress user"
    and "integerAmounts (cartItems cart)"
    and "absTotal (cartItems cart) \<le> 2 ^ 52"
    and "walletMoney user = Finite balance"
    and "isInteger (walletMoney user)"
    and "\<bar>balance\<bar> \<le> 2 ^ 52"
    and "exactTotal (cartItems cart) \<le> balance"
  shows "fst (checkout user w) =
      Inr (user\<lparr>walletMoney := Finite (balance - exactTotal (cartItems cart))\<rparr>) \<and>
    users (snd (checkout user w)) =
      User_save (user\<lparr>walletMoney := Finite (balance - exactTotal (cartItems cart))\<rparr>)
        (users w) \<and>
    Cart_findOne (user_doc.email user) (carts (snd (checkout user w))) =
      Some (cart\<lparr>cartItems := []\<rparr>) \<and>
    length (carts (snd (checkout user w))) = length (carts w)"
proof -
  let ?t = "exactTotal (cartItems cart)"
  from assms(5) have b53: "absTotal (cartItems cart) \<le> 2 ^ 53"
    by simp
  from assms(4) b53 have tot: "computedTotal (cartItems cart) = Finite ?t" and ti: "?t \<in> \<int>"
    by (rule computedTotal_exact)+
  from assms(6,7) have bi: "balance \<in> \<int>"
    using isInteger_cases by fastforce
  from bi ti have di: "balance - ?t \<in> \<int>"
    by simp
  from exactTotal_le_absTotal [of "cartItems cart"] assms(5,8) have "\<bar>balance - ?t\<bar> \<le> 2 ^ 53"
    by simp
  with di have "roundToDouble (balance - ?t) = Finite (balance - ?t)"
    by (rule roundToDouble_safe)
  then have sub: "js_sub (walletMoney user) (computedTotal (cartItems cart)) = Finite (balance - ?t)"
    by (simp add: js_sub_def tot assms(6))
  from assms(9) have gt: "\<not> js_gt (computedTotal (cartItems cart)) (walletMoney user)"
    by (simp add: tot assms(6))
  from assms(1) have "cart_doc.email cart = user_doc.email user"
    by (rule Cart_findOne_email)
  with assms(1,2,3) gt sub show ?thesis
    by (simp add: checkout_found Cart_findOne_save length_Cart_save)
qed

theorem checkout_success_witness:
  "Cart_findOne (user_doc.email exUser) (carts exWorld) = Some exCart \<and>
   cartItems exCart \<noteq> [] \<and> hasSetNonDefaultAddress exUser \<and>
   integerAmounts (cartItems exCart) \<and> absTotal (cartItems exCart) \<le> 2 ^ 52 \<and>
   walletMoney exUser = Finite 27 \<and> isInteger (walletMoney exUser) \<and>
   exactTotal (cartItems exCart) \<le> 27 \<and>
   fst (checkout exUser exWorld) = Inr (exUser\<lparr>walletMoney := Finite 0\<rparr>) \<and>
   users (snd (checkout exUser exWorld)) = [exUser\<lparr>walletMoney := Finite 0\<rparr>] \<and>
   Cart_findOne (user_doc.email exUser) (carts (snd (checkout exUser exWorld))) =
     Some (exCart\<lparr>cartItems := []\<rparr>) \<and>
   length (carts (snd (checkout exUser exWorld))) = 1"
proof -
  have h1: "Cart_findOne (user_doc.email exUser) (carts exWorld) = Some exCart"
    by (simp add: ex_defs Cart_findOne_def)
  have h2: "cartItems exCart \<noteq> []"
    by (simp add: ex_defs)
  have h3: "hasSetNonDefaultAddress exUser"
    by (simp add: ex_defs)
  have h4: "integerAmounts (cartItems exCart)"
    by (simp add: ex_defs integerAmounts_def)
  have h5: "absTotal (cartItems exCart) \<le> 2 ^ 52"
    by (simp add: ex_defs absTotal_def)
  have h6: "walletMoney exUser = Finite 27"
    by (simp add: ex_defs)
  have h7: "isInteger (walletMoney exUser)"
    by (simp add: ex_defs)
  have h8: "\<bar>27 :: rat\<bar> \<le> 2 ^ 52"
    by simp
  have h9: "exactTotal (cartItems exCart) \<le> 27"
    by (simp add: ex_defs exactTotal_def)
  have t: "exactTotal (cartItems exCart) = 27" "users exWorld = [exUser]" "carts exWorld = [exCart]"
    by (simp_all add: ex_defs exactTotal_def)
  from checkout_success [OF h1 h2 h3 h4 h5 h6 h7 h8 h9] h1 h2 h3 h4 h5 h6 h7 h9 show ?thesis
    by (simp add: t)
qed

text \<open>
  Without the bound the loop rounds. Costs \<open>2 ^ 53\<close>, 3 and 3, each with quantity 1, sum to
  \<open>2 ^ 53 + 6\<close>, which is the balance; the loop computes \<open>2 ^ 53 + 8\<close> and \<open>checkout\<close> throws
  "User has insufficient money to process".
\<close>

theorem checkout_success_counterexample:
  "Cart_findOne (user_doc.email exUserBig) (carts exWorldBig) = Some exCartBig \<and>
   cartItems exCartBig \<noteq> [] \<and>
   hasSetNonDefaultAddress exUserBig \<and>
   integerAmounts (cartItems exCartBig) \<and>
   walletMoney exUserBig = Finite (2 ^ 53 + 6) \<and>
   exactTotal (cartItems exCartBig) = 2 ^ 53 + 6 \<and>
   computedTotal (cartItems exCartBig) = Finite (2 ^ 53 + 8) \<and>
   checkout exUserBig exWorldBig =
     (Inl (ApiError 400 ''User has insufficient money to process''), exWorldBig)"
proof -
  have c: "Cart_findOne (user_doc.email exUserBig) (carts exWorldBig) = Some exCartBig"
    by (simp add: ex_defs Cart_findOne_def)
  have t: "computedTotal (cartItems exCartBig) = Finite (2 ^ 53 + 8)"
    by (simp add: ex_defs computedTotal_def roundToDouble_numeral roundToDouble_53_numeral)
  have run: "checkout exUserBig exWorldBig =
     (Inl (ApiError 400 ''User has insufficient money to process''), exWorldBig)"
    by (simp add: checkout_found [OF c] t) (simp add: ex_defs BAD_REQUEST_def)
  have rest: "cartItems exCartBig \<noteq> []" "hasSetNonDefaultAddress exUserBig"
    "integerAmounts (cartItems exCartBig)" "walletMoney exUserBig = Finite (2 ^ 53 + 6)"
    "exactTotal (cartItems exCartBig) = 2 ^ 53 + 6"
    by (simp_all add: ex_defs integerAmounts_def exactTotal_def)
  from c t run rest show ?thesis
    by blast
qed

text \<open>
  Claim C2, as the code has it. For a user who has no cart, \<open>getCartByUser\<close> and \<open>checkout\<close>
  throw an error with HTTP status 404; \<open>updateProductInCart\<close> and \<open>deleteProductFromCart\<close>
  throw an error with HTTP status 400, as their documentation says; all four leave the
  database as it was. \<open>addProductToCart\<close> throws neither 404 nor 500 for the missing cart:
  it creates the cart. The statement that every cart operation answers 404 fails for
  update and delete.
\<close>

theorem no_cart_status:
  assumes "Cart_findOne (user_doc.email user) (carts w) = None"
  shows "thrownStatus (getCartByUser user w) = Some 404 \<and>
    snd (getCartByUser user w) = w \<and>
    thrownStatus (checkout user w) = Some 404 \<and>
    snd (checkout user w) = w \<and>
    thrownStatus (updateProductInCart user productId qty w) = Some 400 \<and>
    snd (updateProductInCart user productId qty w) = w \<and>
    thrownStatus (deleteProductFromCart user productId w) = Some 400 \<and>
    snd (deleteProductFromCart user productId w) = w \<and>
    thrownStatus (addProductToCart cfg user productId qty w) \<noteq> Some 404 \<and>
    thrownStatus (addProductToCart cfg user productId qty w) \<noteq> Some 500 \<and>
    Cart_findOne (user_doc.email user) (carts (snd (addProductToCart cfg user productId qty w)))
      \<noteq> None"
proof -
  have get: "thrownStatus (getCartByUser user w) = Some 404 \<and> snd (getCartByUser user w) = w"
    using assms by (simp add: getCartByUser_def thrownStatus_def NOT_FOUND_def)
  have co: "thrownStatus (checkout user w) = Some 404 \<and> snd (checkout user w) = w"
    using assms by (simp add: checkout_def thrownStatus_def NOT_FOUND_def)
  have upd: "thrownStatus (updateProductInCart user productId qty w) = Some 400 \<and>
      snd (updateProductInCart user productId qty w) = w"
    using assms by (simp add: updateProductInCart_def thrownStatus_def BAD_REQUEST_def)
  have del: "thrownStatus (deleteProductFromCart user productId w) = Some 400 \<and>
      snd (deleteProductFromCart user productId w) = w"
    using assms by (simp add: deleteProductFromCart_def thrownStatus_def BAD_REQUEST_def)
  have add1: "thrownStatus (addProductToCart cfg user productId qty w) \<noteq> Some 404 \<and>
      thrownStatus (addProductToCart cfg user productId qty w) \<noteq> Some 500"
    using assms
    by (simp add: addProductToCart_missing thrownStatus_def BAD_REQUEST_def
        split: option.splits)
  have add2: "Cart_findOne (user_doc.email user)
      (carts (snd (addProductToCart cfg user productId qty w))) \<noteq> None"
    using assms
    by (simp add: addProductToCart_missing Cart_findOne_append Cart_findOne_save_cases
        newCart_def split: option.splits)
  from get co upd del add1 add2 show ?thesis
    by simp
qed

theorem no_cart_status_witness:
  "Cart_findOne (user_doc.email exUser) (carts exWorldNoCart) = None \<and>
   thrownStatus (getCartByUser exUser exWorldNoCart) = Some 404 \<and>
   thrownStatus (checkout exUser exWorldNoCart) = Some 404 \<and>
   thrownStatus (updateProductInCart exUser ''p1'' (Finite 3) exWorldNoCart) = Some 400 \<and>
   thrownStatus (deleteProductFromCart exUser ''p1'' exWorldNoCart) = Some 400 \<and>
   thrownStatus (addProductToCart exConfig exUser ''p1'' (Finite 3) exWorldNoCart) \<noteq> Some 404"
proof -
  have h: "Cart_findOne (user_doc.email exUser) (carts exWorldNoCart) = None"
    by (simp add: ex_defs Cart_findOne_def)
  from no_cart_status [OF h, of "''p1''" "Finite 3" exConfig] h show ?thesis
    by simp
qed

text \<open>
  With no cart stored for the user, \<open>updateProductInCart\<close> throws status 400, not 404.
\<close>

theorem no_cart_404_counterexample:
  "Cart_findOne (user_doc.email exUser) (carts exWorldNoCart) = None \<and>
   thrownStatus (updateProductInCart exUser ''p1'' (Finite 3) exWorldNoCart) = Some 400 \<and>
   thrownStatus (updateProductInCart exUser ''p1'' (Finite 3) exWorldNoCart) \<noteq> Some 404"
  by (simp add: ex_defs Cart_findOne_def updateProductInCart_def thrownStatus_def
      BAD_REQUEST_def)

text \<open>
  Claim C3. When the user has a cart and the product identifier is already in its item
  list, \<open>addProductToCart\<close> throws an error with HTTP status 400 and the database, hence the
  cart's item list, is unchanged.
\<close>

theorem duplicate_add_rejected:
  assumes "Cart_findOne (user_doc.email user) (carts w) = Some cart"
    and "productId \<in> set (itemIds (cartItems cart))"
  shows "thrownStatus (addProductToCart cfg user productId qty w) = Some 400 \<and>
    fst (addProductToCart cfg user productId qty w) =
      Inl (ApiError BAD_REQUEST
        ''Product already in cart. use the cart sidebar to update or remove product from cart'') \<and>
    snd (addProductToCart cfg user productId qty w) = w \<and>
    Cart_findOne (user_doc.email user) (carts (snd (addProductToCart cfg user productId qty w))) =
      Some cart"
  using assms by (simp add: addProductToCart_found thrownStatus_def BAD_REQUEST_def)

theorem duplicate_add_rejected_witness:
  "Cart_findOne (user_doc.email exUser) (carts exWorld) = Some exCart \<and>
   ''p2'' \<in> set (itemIds (cartItems exCart)) \<and>
   thrownStatus (addProductToCart exConfig exUser ''p2'' (Finite 5) exWorld) = Some 400 \<and>
   snd (addProductToCart exConfig exUser ''p2'' (Finite 5) exWorld) = exWorld"
proof -
  have h1: "Cart_findOne (user_doc.email exUser) (carts exWorld) = Some exCart"
    by (simp add: ex_defs Cart_findOne_def)
  have h2: "''p2'' \<in> set (itemIds (cartItems exCart))"
    by (simp add: ex_defs itemIds_def)
  from duplicate_add_rejected [OF h1 h2, of exConfig "Finite 5"] h1 h2 show ?thesis
    by simp
qed

text \<open>
  Claim C4. If the product identifiers in the stored cart of an e-mail address are pairwise
  distinct before \<open>addProductToCart\<close>, \<open>updateProductInCart\<close>, \<open>deleteProductFromCart\<close> or
  \<open>checkout\<close>, they are pairwise distinct after it, whether the operation succeeds or throws
  (the address is any one: the caller's cart and every other cart). \<open>addProductToCart\<close>
  keeps this by its scan: when it succeeds on an existing cart, the identifier was not in
  the list, and the new list of identifiers is the old one with the identifier appended.
\<close>

theorem distinct_ids_preserved:
  assumes "cartDistinct e w"
  shows "cartDistinct e (snd (addProductToCart cfg user productId qty w)) \<and>
    cartDistinct e (snd (updateProductInCart user productId qty w)) \<and>
    cartDistinct e (snd (deleteProductFromCart user productId w)) \<and>
    cartDistinct e (snd (checkout user w)) \<and>
    (\<forall>cart cart'. Cart_findOne (user_doc.email user) (carts w) = Some cart \<and>
        fst (addProductToCart cfg user productId qty w) = Inr cart' \<longrightarrow>
      productId \<notin> set (itemIds (cartItems cart)) \<and>
      itemIds (cartItems cart') = itemIds (cartItems cart) @ [productId])"
proof -
  have scan: "productId \<notin> set (itemIds (cartItems cart)) \<and>
      itemIds (cartItems cart') = itemIds (cartItems cart) @ [productId]"
    if "Cart_findOne (user_doc.email user) (carts w) = Some cart"
      and "fst (addProductToCart cfg user productId qty w) = Inr cart'"
    for cart cart'
    using that
    by (auto simp: addProductToCart_found itemIds_def
        split: if_splits option.splits dest: Product_findOne_id)
  from assms scan show ?thesis
    by (simp add: addProductToCart_distinct updateProductInCart_distinct
        deleteProductFromCart_distinct checkout_distinct)
qed

theorem distinct_ids_preserved_witness:
  "cartDistinct ''ann@qkart.io'' exWorld \<and>
   cartDistinct ''ann@qkart.io'' (snd (addProductToCart exConfig exUser ''p3'' (Finite 1) exWorld)) \<and>
   cartDistinct ''ann@qkart.io'' (snd (updateProductInCart exUser ''p1'' (Finite 4) exWorld)) \<and>
   cartDistinct ''ann@qkart.io'' (snd (deleteProductFromCart exUser ''p1'' exWorld)) \<and>
   cartDistinct ''ann@qkart.io'' (snd (checkout exUser exWorld)) \<and>
   Cart_findOne (user_doc.email exUser) (carts exWorld) = Some exCart \<and>
   fst (addProductToCart exConfig exUser ''p3'' (Finite 1) exWorld) =
     Inr (exCart\<lparr>cartItems := cartItems exCart @ [\<lparr>product = exProductC, quantity = Finite 1\<rparr>]\<rparr>) \<and>
   ''p3'' \<notin> set (itemIds (cartItems exCart)) \<and>
   itemIds (cartItems exCart @ [\<lparr>product = exProductC, quantity = Finite 1\<rparr>]) =
     itemIds (cartItems exCart) @ [''p3'']"
proof -
  have h: "cartDistinct ''ann@qkart.io'' exWorld"
    by (simp add: ex_defs cartDistinct_def Cart_findOne_def itemIds_def)
  have c: "Cart_findOne (user_doc.email exUser) (carts exWorld) = Some exCart"
    by (simp add: ex_defs Cart_findOne_def)
  have a: "fst (addProductToCart exConfig exUser ''p3'' (Finite 1) exWorld) =
     Inr (exCart\<lparr>cartItems := cartItems exCart @ [\<lparr>product = exProductC, quantity = Finite 1\<rparr>]\<rparr>)"
    by (simp add: addProductToCart_found [OF c])
      (simp add: ex_defs itemIds_def Product_findOne_def)
  from distinct_ids_preserved [OF h, of exConfig exUser "''p3''" "Finite 1"]
    distinct_ids_preserved [OF h, of exConfig exUser "''p1''" "Finite 4"] h c a
  show ?thesis
    by simp
qed

text \<open>
  Claim C5, as the code has it. If the wallet balance is not negative before \<open>checkout\<close>,
  \<open>checkout\<close> succeeds and the total that its loop computed is a finite number, then the
  balance is not negative after it: the computed total passed the check against the balance
  and the new balance is the old one minus that total, in double precision. A total that is
  NaN passes the check as well, and then the new balance is NaN.
\<close>

theorem checkout_wallet_nonneg:
  assumes "js_ge (walletMoney user) (Finite 0)"
    and "checkout user w = (Inr user', w')"
    and "Cart_findOne (user_doc.email user) (carts w) = Some cart"
    and "isFinite (computedTotal (cartItems cart))"
  shows "js_ge (walletMoney user') (Finite 0) \<and>
    \<not> js_gt (computedTotal (cartItems cart)) (walletMoney user) \<and>
    walletMoney user' = js_sub (walletMoney user) (computedTotal (cartItems cart))"
proof -
  from assms(4) obtain t where t: "computedTotal (cartItems cart) = Finite t"
    by (cases "computedTotal (cartItems cart)") simp_all
  from assms(2,3) have gt: "\<not> js_gt (computedTotal (cartItems cart)) (walletMoney user)"
    and new: "walletMoney user' = js_sub (walletMoney user) (computedTotal (cartItems cart))"
    by (auto simp: checkout_found split: if_splits)
  have "js_ge (js_sub (walletMoney user) (Finite t)) (Finite 0)"
  proof (cases "walletMoney user")
    case (Finite b)
    with gt t have "0 \<le> b + - t"
      by simp
    then have "js_ge (roundToDouble (b + - t)) (Finite 0)"
      by (rule roundToDouble_nonneg)
    with Finite show ?thesis
      by (simp add: js_sub_def)
  next
    case PosInf
    then show ?thesis
      by (simp add: js_sub_def)
  next
    case NegInf
    with assms(1) show ?thesis
      by simp
  next
    case NaN
    with assms(1) show ?thesis
      by simp
  qed
  with gt new t show ?thesis
    by simp
qed

theorem checkout_wallet_nonneg_witness:
  "js_ge (walletMoney exUserRich) (Finite 0) \<and>
   checkout exUserRich exWorld =
     (Inr (exUserRich\<lparr>walletMoney := Finite 73\<rparr>),
      exWorld\<lparr>users := [exUserRich\<lparr>walletMoney := Finite 73\<rparr>],
        carts := [exCart\<lparr>cartItems := []\<rparr>]\<rparr>) \<and>
   Cart_findOne (user_doc.email exUserRich) (carts exWorld) = Some exCart \<and>
   isFinite (computedTotal (cartItems exCart)) \<and>
   js_ge (walletMoney (exUserRich\<lparr>walletMoney := Finite 73\<rparr>)) (Finite 0)"
proof -
  have h1: "js_ge (walletMoney exUserRich) (Finite 0)"
    by (simp add: ex_defs)
  have h3: "Cart_findOne (user_doc.email exUserRich) (carts exWorld) = Some exCart"
    by (simp add: ex_defs Cart_findOne_def)
  have t: "computedTotal (cartItems exCart) = Finite 27"
    by (simp add: ex_defs computedTotal_def roundToDouble_numeral)
  have h2: "checkout exUserRich exWorld =
     (Inr (exUserRich\<lparr>walletMoney := Finite 73\<rparr>),
      exWorld\<lparr>users := [exUserRich\<lparr>walletMoney := Finite 73\<rparr>],
        carts := [exCart\<lparr>cartItems := []\<rparr>]\<rparr>)"
    by (simp add: checkout_found [OF h3] t)
      (simp add: ex_defs js_sub_def roundToDouble_numeral)
  have h4: "isFinite (computedTotal (cartItems exCart))"
    by (simp add: t)
  from checkout_wallet_nonneg [OF h1 h2 h3 h4]
  have "js_ge (walletMoney (exUserRich\<lparr>walletMoney := Finite 73\<rparr>)) (Finite 0)"
    by blast
  with h1 h2 h3 h4 show ?thesis
    by blast
qed

text \<open>
  Two items whose products overflow to plus and minus infinity: the computed total is NaN,
  the check \<^verbatim>\<open>total > user.walletMoney\<close> is false, \<open>checkout\<close> succeeds and the balance 0
  becomes NaN, which is not greater than or equal to 0.
\<close>

theorem checkout_wallet_nonneg_counterexample:
  "js_ge (walletMoney exUserZero) (Finite 0) \<and>
   Cart_findOne (user_doc.email exUserZero) (carts exWorldOverflow) = Some exCartOverflow \<and>
   computedTotal (cartItems exCartOverflow) = NaN \<and>
   checkout exUserZero exWorldOverflow =
     (Inr (exUserZero\<lparr>walletMoney := NaN\<rparr>),
      exWorldOverflow\<lparr>users := [exUserZero\<lparr>walletMoney := NaN\<rparr>],
        carts := [exCartOverflow\<lparr>cartItems := []\<rparr>]\<rparr>) \<and>
   \<not> js_ge (walletMoney (exUserZero\<lparr>walletMoney := NaN\<rparr>)) (Finite 0)"
proof -
  have c: "Cart_findOne (user_doc.email exUserZero) (carts exWorldOverflow) = Some exCartOverflow"
    by (simp add: ex_defs Cart_findOne_def)
  have t: "computedTotal (cartItems exCartOverflow) = NaN"
    by (simp add: ex_defs computedTotal_def roundToDouble_overflow_numeral
        roundToDouble_underflow_numeral)
  have run: "checkout exUserZero exWorldOverflow =
     (Inr (exUserZero\<lparr>walletMoney := NaN\<rparr>),
      exWorldOverflow\<lparr>users := [exUserZero\<lparr>walletMoney := NaN\<rparr>],
        carts := [exCartOverflow\<lparr>cartItems := []\<rparr>]\<rparr>)"
    by (simp add: checkout_found [OF c] t) (simp add: ex_defs js_sub_def)
  have w: "js_ge (walletMoney exUserZero) (Finite 0)"
    by (simp add: ex_defs)
  from w c t run show ?thesis
    by simp
qed

text \<open>
  Claim C6. For a user whose cart exists: when the item list is not empty, \<open>checkout\<close> does
  not throw the empty-cart error; when the item list is empty, \<open>checkout\<close> throws the error
  "Cart is empty" with HTTP status 400 and leaves the database as it was.
\<close>

theorem checkout_empty_cart:
  assumes "Cart_findOne (user_doc.email user) (carts w) = Some cart"
  shows "(cartItems cart \<noteq> [] \<longrightarrow>
      fst (checkout user w) \<noteq> Inl (ApiError BAD_REQUEST ''Cart is empty'')) \<and>
    (cartItems cart = [] \<longrightarrow>
      fst (checkout user w) = Inl (ApiError BAD_REQUEST ''Cart is empty'') \<and>
      thrownStatus (checkout user w) = Some 400 \<and>
      snd (checkout user w) = w)"
  using assms by (simp add: checkout_found thrownStatus_def BAD_REQUEST_def)

theorem checkout_empty_cart_witness:
  "Cart_findOne (user_doc.email exUser) (carts exWorld) = Some exCart \<and>
   cartItems exCart \<noteq> [] \<and>
   fst (checkout exUser exWorld) \<noteq> Inl (ApiError BAD_REQUEST ''Cart is empty'') \<and>
   Cart_findOne (user_doc.email exUser) (carts exWorldEmptyCart) = Some exEmptyCart \<and>
   cartItems exEmptyCart = [] \<and>
   fst (checkout exUser exWorldEmptyCart) = Inl (ApiError BAD_REQUEST ''Cart is empty'') \<and>
   thrownStatus (checkout exUser exWorldEmptyCart) = Some 400 \<and>
   snd (checkout exUser exWorldEmptyCart) = exWorldEmptyCart"
proof -
  have h1: "Cart_findOne (user_doc.email exUser) (carts exWorld) = Some exCart"
    by (simp add: ex_defs Cart_findOne_def)
  have n1: "cartItems exCart \<noteq> []"
    by (simp add: ex_defs)
  have h2: "Cart_findOne (user_doc.email exUser) (carts exWorldEmptyCart) = Some exEmptyCart"
    by (simp add: ex_defs Cart_findOne_def)
  have n2: "cartItems exEmptyCart = []"
    by (simp add: ex_defs)
  from checkout_empty_cart [OF h1] checkout_empty_cart [OF h2] h1 n1 h2 n2 show ?thesis
    by simp
qed

text \<open>
  Claim C7, as the code has it. When the user has a cart that contains the product and the
  product is also found in the products collection, \<open>updateProductInCart\<close> succeeds and
  changes one thing: the quantity of the last item with that product identifier (no item
  behind it has the identifier) becomes the new value. The product of that item, every
  other item, the length and order of the list, and the cart's e-mail and payment option
  are unchanged, and the cart is saved. Without the product in the products collection the
  operation throws instead and no quantity changes.
\<close>

theorem update_quantity_frame:
  assumes "Cart_findOne (user_doc.email user) (carts w) = Some cart"
    and "productId \<in> set (itemIds (cartItems cart))"
    and "Product_findOne productId (products w) = Some p"
  shows "\<exists>k cart'. k < length (cartItems cart) \<and>
    product_id (product (cartItems cart ! k)) = productId \<and>
    (\<forall>j. k < j \<and> j < length (cartItems cart) \<longrightarrow>
       product_id (product (cartItems cart ! j)) \<noteq> productId) \<and>
    cart' = cart\<lparr>cartItems := (cartItems cart)[k := (cartItems cart ! k)\<lparr>quantity := qty\<rparr>]\<rparr> \<and>
    updateProductInCart user productId qty w =
      (Inr cart', w\<lparr>carts := Cart_save cart' (carts w)\<rparr>) \<and>
    Cart_findOne (user_doc.email user) (Cart_save cart' (carts w)) = Some cart' \<and>
    cart_doc.email cart' = cart_doc.email cart \<and>
    paymentOption cart' = paymentOption cart \<and>
    length (cartItems cart') = length (cartItems cart) \<and>
    quantity (cartItems cart' ! k) = qty \<and>
    map product (cartItems cart') = map product (cartItems cart) \<and>
    (\<forall>j < length (cartItems cart). j \<noteq> k \<longrightarrow> cartItems cart' ! j = cartItems cart ! j)"
proof -
  let ?k = "nat (findProductIndex productId (cartItems cart))"
  let ?c' = "cart\<lparr>cartItems := (cartItems cart)[?k := (cartItems cart ! ?k)\<lparr>quantity := qty\<rparr>]\<rparr>"
  from assms(2) have k: "?k < length (cartItems cart)"
    and id: "product_id (product (cartItems cart ! ?k)) = productId"
    by (rule findProductIndex_bounds)+
  from assms(2) have last: "\<forall>j. ?k < j \<and> j < length (cartItems cart) \<longrightarrow>
      product_id (product (cartItems cart ! j)) \<noteq> productId"
    using findProductIndex_is_last [of productId "cartItems cart"] by blast
  from assms have run: "updateProductInCart user productId qty w =
      (Inr ?c', w\<lparr>carts := Cart_save ?c' (carts w)\<rparr>)"
    by (simp add: updateProductInCart_found)
  from assms(1) have "cart_doc.email cart = user_doc.email user"
    by (rule Cart_findOne_email)
  with assms(1) have saved: "Cart_findOne (user_doc.email user) (Cart_save ?c' (carts w)) = Some ?c'"
    by (simp add: Cart_findOne_save)
  have prods: "map product (cartItems ?c') = map product (cartItems cart)"
    using k by (simp add: map_update list_update_same_conv)
  from k id last run saved prods show ?thesis
    by (intro exI [of _ ?k] exI [of _ ?c']) simp
qed

theorem update_quantity_frame_witness:
  "Cart_findOne (user_doc.email exUser) (carts exWorldTwice) = Some exCartTwice \<and>
   ''p1'' \<in> set (itemIds (cartItems exCartTwice)) \<and>
   Product_findOne ''p1'' (products exWorldTwice) = Some exProductA \<and>
   (\<exists>k. k < length (cartItems exCartTwice) \<and>
      product_id (product (cartItems exCartTwice ! k)) = ''p1'' \<and>
      (\<forall>j. k < j \<and> j < length (cartItems exCartTwice) \<longrightarrow>
         product_id (product (cartItems exCartTwice ! j)) \<noteq> ''p1'') \<and>
      fst (updateProductInCart exUser ''p1'' (Finite 5) exWorldTwice) =
        Inr (exCartTwice\<lparr>cartItems :=
          (cartItems exCartTwice)[k := (cartItems exCartTwice ! k)\<lparr>quantity := Finite 5\<rparr>]\<rparr>)) \<and>
   fst (updateProductInCart exUser ''p1'' (Finite 5) exWorldTwice) =
     Inr (exCartTwice\<lparr>cartItems := [\<lparr>product = exProductA, quantity = Finite 2\<rparr>,
       \<lparr>product = exProductB, quantity = Finite 1\<rparr>,
       \<lparr>product = exProductA, quantity = Finite 5\<rparr>]\<rparr>)"
proof -
  have h1: "Cart_findOne (user_doc.email exUser) (carts exWorldTwice) = Some exCartTwice"
    by (simp add: ex_defs exCartTwice_def exWorldTwice_def Cart_findOne_def)
  have h2: "''p1'' \<in> set (itemIds (cartItems exCartTwice))"
    by (simp add: ex_defs exCartTwice_def itemIds_def)
  have h3: "Product_findOne ''p1'' (products exWorldTwice) = Some exProductA"
    by (simp add: ex_defs exWorldTwice_def Product_findOne_def)
  from update_quantity_frame [OF h1 h2 h3, of "Finite 5"]
  have general: "\<exists>k. k < length (cartItems exCartTwice) \<and>
      product_id (product (cartItems exCartTwice ! k)) = ''p1'' \<and>
      (\<forall>j. k < j \<and> j < length (cartItems exCartTwice) \<longrightarrow>
         product_id (product (cartItems exCartTwice ! j)) \<noteq> ''p1'') \<and>
      fst (updateProductInCart exUser ''p1'' (Finite 5) exWorldTwice) =
        Inr (exCartTwice\<lparr>cartItems :=
          (cartItems exCartTwice)[k := (cartItems exCartTwice ! k)\<lparr>quantity := Finite 5\<rparr>]\<rparr>)"
    by fastforce
  have concrete: "fst (updateProductInCart exUser ''p1'' (Finite 5) exWorldTwice) =
     Inr (exCartTwice\<lparr>cartItems := [\<lparr>product = exProductA, quantity = Finite 2\<rparr>,
       \<lparr>product = exProductB, quantity = Finite 1\<rparr>,
       \<lparr>product = exProductA, quantity = Finite 5\<rparr>]\<rparr>)"
    by (simp add: updateProductInCart_found [OF h1] h2 h3)
      (simp add: ex_defs exCartTwice_def findProductIndex_def)
  from h1 h2 h3 general concrete show ?thesis
    by blast
qed

text \<open>
  A cart can hold a product that the products collection no longer has. Then the update
  throws status 400 and the item keeps its quantity 2 instead of the requested 5.
\<close>

theorem update_quantity_counterexample:
  "Cart_findOne (user_doc.email exUser) (carts exWorldNoProducts) = Some exCart \<and>
   ''p1'' \<in> set (itemIds (cartItems exCart)) \<and>
   updateProductInCart exUser ''p1'' (Finite 5) exWorldNoProducts =
     (Inl (ApiError 400 ''Product doesn't exist in database''), exWorldNoProducts) \<and>
   Cart_findOne (user_doc.email exUser)
     (carts (snd (updateProductInCart exUser ''p1'' (Finite 5) exWorldNoProducts))) = Some exCart \<and>
   product_id (product (cartItems exCart ! 0)) = ''p1'' \<and>
   quantity (cartItems exCart ! 0) = Finite 2"
  by (simp add: ex_defs Cart_findOne_def Product_findOne_def updateProductInCart_def
      itemIds_def BAD_REQUEST_def)

text \<open>
  Claim C8. For a user with a cart: when the product occurs exactly once in the item list,
  \<open>deleteProductFromCart\<close> succeeds and the saved list is the old list without that item,
  the other items in their order, one item shorter; when the product is not in the list it
  throws an error with HTTP status 400 and the database is unchanged.
\<close>

theorem delete_removes_one:
  assumes "Cart_findOne (user_doc.email user) (carts w) = Some cart"
  shows "(length (filter (\<lambda>x. product_id (product x) = productId) (cartItems cart)) = 1 \<longrightarrow>
      deleteProductFromCart user productId w =
        (Inr (cart\<lparr>cartItems :=
            filter (\<lambda>x. product_id (product x) \<noteq> productId) (cartItems cart)\<rparr>),
         w\<lparr>carts := Cart_save
           (cart\<lparr>cartItems :=
              filter (\<lambda>x. product_id (product x) \<noteq> productId) (cartItems cart)\<rparr>)
           (carts w)\<rparr>) \<and>
      Cart_findOne (user_doc.email user) (carts (snd (deleteProductFromCart user productId w))) =
        Some (cart\<lparr>cartItems :=
            filter (\<lambda>x. product_id (product x) \<noteq> productId) (cartItems cart)\<rparr>) \<and>
      length (filter (\<lambda>x. product_id (product x) \<noteq> productId) (cartItems cart)) + 1 =
        length (cartItems cart)) \<and>
    (productId \<notin> set (itemIds (cartItems cart)) \<longrightarrow>
      fst (deleteProductFromCart user productId w) =
        Inl (ApiError BAD_REQUEST ''Product not in cart'') \<and>
      thrownStatus (deleteProductFromCart user productId w) = Some 400 \<and>
      snd (deleteProductFromCart user productId w) = w)"
proof (intro conjI impI)
  assume once: "length (filter (\<lambda>x. product_id (product x) = productId) (cartItems cart)) = 1"
  let ?rest = "filter (\<lambda>x. product_id (product x) \<noteq> productId) (cartItems cart)"
  from once have "filter (\<lambda>x. product_id (product x) = productId) (cartItems cart) \<noteq> []"
    by auto
  then have mem: "productId \<in> set (itemIds (cartItems cart))"
    by (auto simp: itemIds_def filter_empty_conv)
  from once have sp: "splice_js (nat (findProductIndex productId (cartItems cart))) 1
      (cartItems cart) = ?rest"
    by (rule splice_once)
  from assms mem sp show run: "deleteProductFromCart user productId w =
      (Inr (cart\<lparr>cartItems := ?rest\<rparr>),
       w\<lparr>carts := Cart_save (cart\<lparr>cartItems := ?rest\<rparr>) (carts w)\<rparr>)"
    by (simp add: deleteProductFromCart_found del: One_nat_def)
  from assms have "cart_doc.email cart = user_doc.email user"
    by (rule Cart_findOne_email)
  with assms run show "Cart_findOne (user_doc.email user)
      (carts (snd (deleteProductFromCart user productId w))) = Some (cart\<lparr>cartItems := ?rest\<rparr>)"
    by (simp add: Cart_findOne_save)
  have "length (filter (\<lambda>x. product_id (product x) = productId) (cartItems cart)) +
      length ?rest = length (cartItems cart)"
    by (rule sum_length_filter_compl)
  with once show "length ?rest + 1 = length (cartItems cart)"
    by simp
next
  assume "productId \<notin> set (itemIds (cartItems cart))"
  with assms show "fst (deleteProductFromCart user productId w) =
      Inl (ApiError BAD_REQUEST ''Product not in cart'')"
    and "thrownStatus (deleteProductFromCart user productId w) = Some 400"
    and "snd (deleteProductFromCart user productId w) = w"
    by (simp_all add: deleteProductFromCart_found thrownStatus_def BAD_REQUEST_def)
qed

theorem delete_removes_one_witness:
  "Cart_findOne (user_doc.email exUser) (carts exWorld) = Some exCart \<and>
   length (filter (\<lambda>x. product_id (product x) = ''p1'') (cartItems exCart)) = 1 \<and>
   deleteProductFromCart exUser ''p1'' exWorld =
     (Inr (exCart\<lparr>cartItems := [\<lparr>product = exProductB, quantity = Finite 1\<rparr>]\<rparr>),
      exWorld\<lparr>carts := [exCart\<lparr>cartItems := [\<lparr>product = exProductB, quantity = Finite 1\<rparr>]\<rparr>]\<rparr>) \<and>
   ''p3'' \<notin> set (itemIds (cartItems exCart)) \<and>
   thrownStatus (deleteProductFromCart exUser ''p3'' exWorld) = Some 400 \<and>
   snd (deleteProductFromCart exUser ''p3'' exWorld) = exWorld"
proof -
  have h: "Cart_findOne (user_doc.email exUser) (carts exWorld) = Some exCart"
    by (simp add: ex_defs Cart_findOne_def)
  have once: "length (filter (\<lambda>x. product_id (product x) = ''p1'') (cartItems exCart)) = 1"
    by (simp add: ex_defs)
  have rest: "filter (\<lambda>x. product_id (product x) \<noteq> ''p1'') (cartItems exCart) =
      [\<lparr>product = exProductB, quantity = Finite 1\<rparr>]"
    by (simp add: ex_defs)
  have absent: "''p3'' \<notin> set (itemIds (cartItems exCart))"
    by (simp add: ex_defs itemIds_def)
  have cs: "carts exWorld = [exCart]"
    by (simp add: ex_defs)
  from delete_removes_one [OF h, of "''p1''"] delete_removes_one [OF h, of "''p3''"]
    h once absent
  show ?thesis
    by (simp add: rest cs)
qed

text \<open>
  Claim C9. For a user who has no cart and a product identifier that the products
  collection does not have, \<open>addProductToCart\<close> throws the 400 error "Product doesn't exist
  in database", and the database it leaves holds a new cart for the user, with an empty
  item list: the failing call has changed the stored state.
\<close>

theorem add_creates_cart_before_failing:
  assumes "Cart_findOne (user_doc.email user) (carts w) = None"
    and "Product_findOne productId (products w) = None"
  shows "addProductToCart cfg user productId qty w =
      (Inl (ApiError BAD_REQUEST ''Product doesn't exist in database''),
       w\<lparr>carts := carts w @ [newCart cfg user]\<rparr>) \<and>
    thrownStatus (addProductToCart cfg user productId qty w) = Some 400 \<and>
    Cart_findOne (user_doc.email user) (carts (snd (addProductToCart cfg user productId qty w))) =
      Some (newCart cfg user) \<and>
    cartItems (newCart cfg user) = [] \<and>
    snd (addProductToCart cfg user productId qty w) \<noteq> w"
proof -
  from assms have run: "addProductToCart cfg user productId qty w =
      (Inl (ApiError BAD_REQUEST ''Product doesn't exist in database''),
       w\<lparr>carts := carts w @ [newCart cfg user]\<rparr>)"
    by (simp add: addProductToCart_missing)
  have "carts (w\<lparr>carts := carts w @ [newCart cfg user]\<rparr>) \<noteq> carts w"
    by simp
  then have changed: "w\<lparr>carts := carts w @ [newCart cfg user]\<rparr> \<noteq> w"
    by metis
  from assms(1) have found: "Cart_findOne (user_doc.email user) (carts w @ [newCart cfg user]) =
      Some (newCart cfg user)"
    by (simp add: Cart_findOne_append newCart_def)
  from run changed found show ?thesis
    by (simp add: thrownStatus_def BAD_REQUEST_def newCart_def)
qed

theorem add_creates_cart_before_failing_witness:
  "Cart_findOne (user_doc.email exUser) (carts exWorldNoCart) = None \<and>
   Product_findOne ''p9'' (products exWorldNoCart) = None \<and>
   addProductToCart exConfig exUser ''p9'' (Finite 1) exWorldNoCart =
     (Inl (ApiError 400 ''Product doesn't exist in database''),
      exWorldNoCart\<lparr>carts := [exEmptyCart]\<rparr>) \<and>
   snd (addProductToCart exConfig exUser ''p9'' (Finite 1) exWorldNoCart) \<noteq> exWorldNoCart"
proof -
  have h1: "Cart_findOne (user_doc.email exUser) (carts exWorldNoCart) = None"
    by (simp add: ex_defs Cart_findOne_def)
  have h2: "Product_findOne ''p9'' (products exWorldNoCart) = None"
    by (simp add: ex_defs Product_findOne_def)
  have n: "newCart exConfig exUser = exEmptyCart" "carts exWorldNoCart = []"
    by (simp_all add: ex_defs newCart_def)
  note run = add_creates_cart_before_failing [OF h1 h2, of exConfig "Finite 1"]
  from run have "addProductToCart exConfig exUser ''p9'' (Finite 1) exWorldNoCart =
     (Inl (ApiError BAD_REQUEST ''Product doesn't exist in database''),
      exWorldNoCart\<lparr>carts := carts exWorldNoCart @ [newCart exConfig exUser]\<rparr>)"
    by blast
  then have result: "addProductToCart exConfig exUser ''p9'' (Finite 1) exWorldNoCart =
     (Inl (ApiError 400 ''Product doesn't exist in database''),
      exWorldNoCart\<lparr>carts := [exEmptyCart]\<rparr>)"
    by (simp add: n BAD_REQUEST_def)
  from run have changed: "snd (addProductToCart exConfig exUser ''p9'' (Finite 1) exWorldNoCart) \<noteq>
      exWorldNoCart"
    by blast
  from h1 h2 result changed show ?thesis
    by blast
qed

text \<open>
  Claim C10, as the code has it. When \<open>checkout\<close> reaches the balance check (the cart exists
  and is not empty, the address check passes) and the total that the loop computed is equal
  to the wallet balance, a finite number, \<open>checkout\<close> succeeds (the comparison is a strict
  greater-than) and the balance is exactly zero afterwards. The total is the one the loop
  computes in double precision: the sum of cost times quantity as a sum of exact numbers
  can equal the balance while the computed total exceeds it.
\<close>

theorem checkout_exact_balance:
  assumes "Cart_findOne (user_doc.email user) (carts w) = Some cart"
    and "cartItems cart \<noteq> []"
    and "hasSetNonDefaultAddress user"
    and "computedTotal (cartItems cart) = walletMoney user"
    and "isFinite (walletMoney user)"
  shows "fst (checkout user w) = Inr (user\<lparr>walletMoney := Finite 0\<rparr>) \<and>
    users (snd (checkout user w)) = User_save (user\<lparr>walletMoney := Finite 0\<rparr>) (users w)"
proof -
  from assms(5) obtain b where b: "walletMoney user = Finite b"
    by (cases "walletMoney user") simp_all
  with assms(4) have gt: "\<not> js_gt (computedTotal (cartItems cart)) (walletMoney user)"
    by simp
  from b assms(4) have "js_sub (walletMoney user) (computedTotal (cartItems cart)) = Finite 0"
    by (simp add: js_sub_def roundToDouble_zero)
  with assms(1,2,3) gt show ?thesis
    by (simp add: checkout_found)
qed

theorem checkout_exact_balance_witness:
  "Cart_findOne (user_doc.email exUser) (carts exWorld) = Some exCart \<and>
   cartItems exCart \<noteq> [] \<and> hasSetNonDefaultAddress exUser \<and>
   computedTotal (cartItems exCart) = walletMoney exUser \<and>
   isFinite (walletMoney exUser) \<and>
   fst (checkout exUser exWorld) = Inr (exUser\<lparr>walletMoney := Finite 0\<rparr>)"
proof -
  have h1: "Cart_findOne (user_doc.email exUser) (carts exWorld) = Some exCart"
    by (simp add: ex_defs Cart_findOne_def)
  have h2: "cartItems exCart \<noteq> []"
    by (simp add: ex_defs)
  have h3: "hasSetNonDefaultAddress exUser"
    by (simp add: ex_defs)
  have h4: "computedTotal (cartItems exCart) = walletMoney exUser"
    by (simp add: ex_defs computedTotal_def roundToDouble_numeral)
  have h5: "isFinite (walletMoney exUser)"
    by (simp add: ex_defs)
  from checkout_exact_balance [OF h1 h2 h3 h4 h5]
  have "fst (checkout exUser exWorld) = Inr (exUser\<lparr>walletMoney := Finite 0\<rparr>)"
    by blast
  with h1 h2 h3 h4 h5 show ?thesis
    by blast
qed

text \<open>
  Cost \<open>2 ^ 52\<close> twice, cost 3 once and cost 1 three times sum to \<open>2 ^ 53 + 6\<close>, exactly the
  balance. The loop computes \<open>2 ^ 53 + 8\<close>, the strict comparison holds and \<open>checkout\<close> throws
  "User has insufficient money to process".
\<close>

theorem checkout_exact_balance_counterexample:
  "Cart_findOne (user_doc.email exUserBig) (carts exWorldTie) = Some exCartTie \<and>
   cartItems exCartTie \<noteq> [] \<and>
   hasSetNonDefaultAddress exUserBig \<and>
   integerAmounts (cartItems exCartTie) \<and>
   exactTotal (cartItems exCartTie) = 2 ^ 53 + 6 \<and>
   walletMoney exUserBig = Finite (2 ^ 53 + 6) \<and>
   computedTotal (cartItems exCartTie) = Finite (2 ^ 53 + 8) \<and>
   checkout exUserBig exWorldTie =
     (Inl (ApiError 400 ''User has insufficient money to process''), exWorldTie)"
proof -
  have c: "Cart_findOne (user_doc.email exUserBig) (carts exWorldTie) = Some exCartTie"
    by (simp add: exCartTie_def exWorldTie_def exUserBig_def Cart_findOne_def)
  have t: "computedTotal (cartItems exCartTie) = Finite (2 ^ 53 + 8)"
    by (simp add: exCartTie_def computedTotal_def roundToDouble_numeral roundToDouble_one
        roundToDouble_53_numeral)
  have run: "checkout exUserBig exWorldTie =
     (Inl (ApiError 400 ''User has insufficient money to process''), exWorldTie)"
    by (simp add: checkout_found [OF c] t)
      (simp add: exCartTie_def exUserBig_def BAD_REQUEST_def)
  have rest: "cartItems exCartTie \<noteq> []" "hasSetNonDefaultAddress exUserBig"
    "integerAmounts (cartItems exCartTie)" "walletMoney exUserBig = Finite (2 ^ 53 + 6)"
    "exactTotal (cartItems exCartTie) = 2 ^ 53 + 6"
    by (simp_all add: exCartTie_def exUserBig_def integerAmounts_def exactTotal_def)
  from c t run rest show ?thesis
    by blast
qed

end
